theory Spec2Isabelle
  imports Complex_Main
begin

section \<open>Adaptive Opus controllers and evaluation harness\<close>

text \<open>
  A shallow embedding of \<^verbatim>\<open>dashboard_engine.py\<close>, \<^verbatim>\<open>opus_wrapper.py\<close>,
  \<^verbatim>\<open>quality_analyzer.py\<close> and the sweep worker of \<^verbatim>\<open>main_script.py\<close>.
  Python numbers that are only compared and passed on (loss percentages, predicted
  scores, MOS values) are \<open>real\<close>, so NaN and the infinities are no values here; integers
  of the grid are \<open>int\<close>. A Python exception is a value of type \<open>exc\<close>, and a function
  that can raise returns \<open>exc + 'a\<close>. Output printed to the console is not modelled.
\<close>

subsection \<open>Exceptions\<close>

datatype exc =
    ValueError string
  | TypeError string
  | AttributeError string
  | ZeroDivisionError
  | CalledProcessError
  | Raised string  \<comment> \<open>any other subclass of \<^verbatim>\<open>Exception\<close>, by name\<close>

subsection \<open>The parameter grid\<close>

record config =
  bitrate :: int
  frame_size :: int
  complexity :: int
  use_fec :: bool

definition bitrates :: "int list" where
  "bitrates = [8, 12, 16, 24, 32, 48]"

definition frame_sizes :: "int list" where
  "frame_sizes = [20, 40, 60]"

definition complexities :: "int list" where
  "complexities = [5, 9]"

definition fec_options :: "bool list" where
  "fec_options = [False, True]"

text \<open>The four nested \<^verbatim>\<open>for\<close> loops append one dict per combination, innermost loop fastest.\<close>

definition generate_all_configs :: "config list" where
  "generate_all_configs =
     [\<lparr>bitrate = b, frame_size = f, complexity = c, use_fec = fec\<rparr>.
        b \<leftarrow> bitrates, f \<leftarrow> frame_sizes, c \<leftarrow> complexities, fec \<leftarrow> fec_options]"

subsection \<open>Controllers\<close>

definition static_controller :: "real \<Rightarrow> config" where
  "static_controller packet_loss =
     \<lparr>bitrate = 32, frame_size = 20, complexity = 5, use_fec = False\<rparr>"

definition heuristic_controller :: "real \<Rightarrow> config" where
  "heuristic_controller packet_loss =
     (let b = (if packet_loss < 2 then 48
               else if packet_loss < 5 then 24
               else if packet_loss < 10 then 16
               else 12)
      in \<lparr>bitrate = b, frame_size = 20, complexity = 5, use_fec = False\<rparr>)"

text \<open>
  A loaded model is a function from a feature vector to a prediction or an exception;
  \<^verbatim>\<open>model=None\<close> is \<open>None\<close>, on which \<^verbatim>\<open>model.predict\<close> raises \<^verbatim>\<open>AttributeError\<close>.
\<close>

type_synonym predictor = "real list \<Rightarrow> exc + real"

definition predict :: "predictor option \<Rightarrow> real list \<Rightarrow> exc + real" where
  "predict model features =
     (case model of
        None \<Rightarrow> Inl (AttributeError ''predict'')
      | Some m \<Rightarrow> m features)"

definition features_of :: "config \<Rightarrow> real \<Rightarrow> real list" where
  "features_of cfg packet_loss =
     [real_of_int (bitrate cfg), real_of_int (frame_size cfg),
      (if use_fec cfg then 1 else 0), packet_loss]"

text \<open>The \<^verbatim>\<open>try\<close>/\<^verbatim>\<open>except Exception\<close> around the prediction: a raise becomes \<open>0.0\<close>.\<close>

definition pred_of :: "predictor option \<Rightarrow> real \<Rightarrow> config \<Rightarrow> real" where
  "pred_of model packet_loss cfg =
     (case predict model (features_of cfg packet_loss) of
        Inl e \<Rightarrow> 0
      | Inr p \<Rightarrow> p)"

text \<open>The loop over the candidates, carrying \<^verbatim>\<open>best\<close> and \<^verbatim>\<open>best_score\<close>.\<close>

fun ml_loop ::
  "predictor option \<Rightarrow> real \<Rightarrow> config list \<Rightarrow> config option \<times> real \<Rightarrow> config option \<times> real"
where
  "ml_loop model packet_loss [] (best, best_score) = (best, best_score)"
| "ml_loop model packet_loss (cfg # rest) (best, best_score) =
     (let pred = pred_of model packet_loss cfg
      in if pred > best_score
         then ml_loop model packet_loss rest (Some cfg, pred)
         else ml_loop model packet_loss rest (best, best_score))"

definition ml_controller :: "real \<Rightarrow> predictor option \<Rightarrow> config option" where
  "ml_controller packet_loss model =
     fst (ml_loop model packet_loss generate_all_configs (None, - 1000000000))"

definition hybrid_controller :: "real \<Rightarrow> predictor option \<Rightarrow> config option" where
  "hybrid_controller packet_loss model =
     (if packet_loss < 5 then ml_controller packet_loss model
      else Some (static_controller packet_loss))"

subsection \<open>Paths, files and the external world\<close>

text \<open>
  A \<^verbatim>\<open>pathlib.Path\<close> is kept as its parent directory, its stem and its last suffix, so that
  \<^verbatim>\<open>.stem\<close> and \<^verbatim>\<open>.name\<close> are projections.
\<close>

record pypath =
  parent :: string
  stem :: string
  suffix :: string

definition name :: "pypath \<Rightarrow> string" where
  "name p = stem p @ suffix p"

text \<open>
  Audio data as \<^verbatim>\<open>soundfile\<close> returns it: a 1-D array of samples, or a 2-D array of frames
  with at least one channel each (the first channel and the others). Samples are kept as
  the integers of the \<^verbatim>\<open>int16\<close> read; the default \<^verbatim>\<open>float64\<close> read of the harness is the
  same data scaled, and no function here computes with a sample.
\<close>

datatype ndarray = Mono "int list" | Multi "(int \<times> int list) list"

text \<open>\<^verbatim>\<open>data[:, 0] if data.ndim > 1 else data\<close>: \<open>Multi\<close> is the case \<^verbatim>\<open>ndim > 1\<close>.\<close>

definition first_channel :: "ndarray \<Rightarrow> int list" where
  "first_channel a = (case a of Mono xs \<Rightarrow> xs | Multi fs \<Rightarrow> map fst fs)"

text \<open>A file is either a sound file that \<^verbatim>\<open>sf.read\<close> decodes (data and sample rate) or anything else.\<close>

datatype file_content = AudioFile ndarray int | Blob

text \<open>The two external programs, with the arguments the command lines carry.\<close>

datatype command =
    Opusenc int int int "string list" pypath pypath
      \<comment> \<open>bitrate, framesize, comp, the FEC flags, input, output\<close>
  | Opusdec int real pypath pypath
      \<comment> \<open>rate, packet-loss, input, output\<close>

text \<open>
  The world a call runs in: the files that exist, the number of clock readings taken so
  far, and the external commands run so far, in order.
\<close>

record world =
  files :: "pypath \<rightharpoonup> file_content"
  ticks :: nat
  trace :: "command list"

text \<open>
  What the code does not decide: the behaviour of \<^verbatim>\<open>opusenc\<close>/\<^verbatim>\<open>opusdec\<close> under
  \<^verbatim>\<open>subprocess.run(..., check=True)\<close> (the exception raised, if any, and the files
  afterwards), of \<^verbatim>\<open>pesq\<close>, of \<^verbatim>\<open>scipy.signal.resample\<close>, of \<^verbatim>\<open>str\<close> on the loss value, of
  \<^verbatim>\<open>time.time\<close>, whether \<^verbatim>\<open>sf.write\<close> fails on a path, and the home directory.
\<close>

record env =
  subprocess_run :: "command \<Rightarrow> (pypath \<rightharpoonup> file_content) \<Rightarrow> (exc + unit) \<times> (pypath \<rightharpoonup> file_content)"
  pesq :: "int \<Rightarrow> int list \<Rightarrow> int list \<Rightarrow> string \<Rightarrow> exc + real"
  resample :: "int list \<Rightarrow> int \<Rightarrow> int list"
  py_str :: "real \<Rightarrow> string"
  clock :: "nat \<Rightarrow> real"
  sf_write_error :: "pypath \<Rightarrow> exc option"
  home :: string

definition BASE_PROJECT_DIR :: "env \<Rightarrow> string" where
  "BASE_PROJECT_DIR e = home e @ ''/adaptive_opus''"

definition PROCESSED_AUDIO_DIR :: "env \<Rightarrow> string" where
  "PROCESSED_AUDIO_DIR e = BASE_PROJECT_DIR e @ ''/processed_audio''"

definition time_time :: "env \<Rightarrow> world \<Rightarrow> real \<times> world" where
  "time_time e w = (clock e (ticks w), w\<lparr>ticks := Suc (ticks w)\<rparr>)"

definition run_cmd :: "env \<Rightarrow> command \<Rightarrow> world \<Rightarrow> (exc + unit) \<times> world" where
  "run_cmd e cmd w =
     (let (r, fs) = subprocess_run e cmd (files w)
      in (r, w\<lparr>files := fs, trace := trace w @ [cmd]\<rparr>))"

text \<open>\<^verbatim>\<open>Path.unlink(missing_ok=True)\<close>\<close>

definition unlink :: "pypath \<Rightarrow> world \<Rightarrow> world" where
  "unlink p w = w\<lparr>files := (files w)(p := None)\<rparr>"

definition sf_read :: "world \<Rightarrow> pypath \<Rightarrow> exc + (ndarray \<times> int)" where
  "sf_read w p =
     (case files w p of
        Some (AudioFile d sr) \<Rightarrow> Inr (d, sr)
      | Some Blob \<Rightarrow> Inl (Raised ''LibsndfileError'')
      | None \<Rightarrow> Inl (Raised ''LibsndfileError''))"

definition sf_write :: "env \<Rightarrow> pypath \<Rightarrow> int list \<Rightarrow> int \<Rightarrow> world \<Rightarrow> (exc + unit) \<times> world" where
  "sf_write e p d sr w =
     (case sf_write_error e p of
        Some x \<Rightarrow> (Inl x, w)
      | None \<Rightarrow> (Inr (), w\<lparr>files := (files w)(p \<mapsto> AudioFile (Mono d) sr)\<rparr>))"

subsection \<open>Decimal strings\<close>

definition digit_char :: "nat \<Rightarrow> char" where
  "digit_char d = char_of (48 + d)"

function digits :: "nat \<Rightarrow> string" where
  "digits n = (if n < 10 then [digit_char n] else digits (n div 10) @ [digit_char (n mod 10)])"
  by pat_completeness auto
termination
  by (relation "measure (\<lambda>n. n)") auto

declare digits.simps [simp del]

text \<open>\<^verbatim>\<open>str\<close> on a Python \<^verbatim>\<open>int\<close>\<close>

definition str_int :: "int \<Rightarrow> string" where
  "str_int i = (if i < 0 then CHR ''-'' # digits (nat (- i)) else digits (nat i))"

text \<open>\<^verbatim>\<open>int\<close> on a Python \<^verbatim>\<open>float\<close>: truncation towards zero.\<close>

definition py_int :: "real \<Rightarrow> int" where
  "py_int x = (if 0 \<le> x then \<lfloor>x\<rfloor> else \<lceil>x\<rceil>)"

text \<open>\<^verbatim>\<open>.replace('.', 'p')\<close>\<close>

definition replace_dot :: "string \<Rightarrow> string" where
  "replace_dot s = map (\<lambda>ch. if ch = CHR ''.'' then CHR ''p'' else ch) s"

subsection \<open>The codec pipeline (opus_wrapper.py)\<close>

definition output_filename_base :: "env \<Rightarrow> pypath \<Rightarrow> int \<Rightarrow> int \<Rightarrow> int \<Rightarrow> bool \<Rightarrow> real \<Rightarrow> string" where
  "output_filename_base e input_wav_path br fs cx fec simulated_loss_perc =
     (let fec_str = (if fec then ''fec'' else ''nofec'');
          loss_str = replace_dot (py_str e simulated_loss_perc)
      in stem input_wav_path @ ''_b'' @ str_int br @ ''_f'' @ str_int fs @ ''_c'' @ str_int cx
           @ ''_'' @ fec_str @ ''_l'' @ loss_str)"

definition intermediate_opus_file :: "env \<Rightarrow> pypath \<Rightarrow> int \<Rightarrow> int \<Rightarrow> int \<Rightarrow> bool \<Rightarrow> real \<Rightarrow> pypath" where
  "intermediate_opus_file e input_wav_path br fs cx fec simulated_loss_perc =
     \<lparr>parent = PROCESSED_AUDIO_DIR e,
      stem = output_filename_base e input_wav_path br fs cx fec simulated_loss_perc,
      suffix = ''.opus''\<rparr>"

definition final_wav_file :: "env \<Rightarrow> pypath \<Rightarrow> int \<Rightarrow> int \<Rightarrow> int \<Rightarrow> bool \<Rightarrow> real \<Rightarrow> pypath" where
  "final_wav_file e input_wav_path br fs cx fec simulated_loss_perc =
     \<lparr>parent = PROCESSED_AUDIO_DIR e,
      stem = output_filename_base e input_wav_path br fs cx fec simulated_loss_perc,
      suffix = ''.wav''\<rparr>"

text \<open>
  \<^verbatim>\<open>process_audio_file\<close>: only \<^verbatim>\<open>CalledProcessError\<close> is caught; any other exception of
  \<^verbatim>\<open>subprocess.run\<close> leaves the function. The result is \<open>Inr None\<close> for the Python
  \<^verbatim>\<open>None\<close>, \<open>Inr (Some p)\<close> for the returned path.
\<close>

definition process_audio_file ::
  "env \<Rightarrow> pypath \<Rightarrow> int \<Rightarrow> int \<Rightarrow> int \<Rightarrow> bool \<Rightarrow> real \<Rightarrow> world \<Rightarrow> (exc + pypath option) \<times> world"
where
  "process_audio_file e input_wav_path br fs cx fec simulated_loss_perc w =
     (let opus = intermediate_opus_file e input_wav_path br fs cx fec simulated_loss_perc;
          wav = final_wav_file e input_wav_path br fs cx fec simulated_loss_perc;
          fec_flag = (if fec then [''--expect-loss'', ''5''] else []);
          (r1, w1) = run_cmd e (Opusenc br fs cx fec_flag input_wav_path opus) w
      in case r1 of
           Inl x \<Rightarrow> (if x = CalledProcessError then (Inr None, w1) else (Inl x, w1))
         | Inr u \<Rightarrow>
             (let (r2, w2) = run_cmd e (Opusdec 16000 simulated_loss_perc opus wav) w1
              in case r2 of
                   Inl x \<Rightarrow>
                     (if x = CalledProcessError then (Inr None, unlink opus w2) else (Inl x, w2))
                 | Inr u \<Rightarrow> (Inr (Some wav), unlink opus w2)))"

subsection \<open>The quality scorer (quality_analyzer.py)\<close>

definition REQUIRED_SAMPLE_RATE :: int where
  "REQUIRED_SAMPLE_RATE = 16000"

definition PESQ_MODE :: string where
  "PESQ_MODE = ''wb''"

text \<open>
  \<^verbatim>\<open>get_audio_quality\<close> catches every exception of the two reads and of \<^verbatim>\<open>pesq\<close>, so it
  returns a score or \<^verbatim>\<open>None\<close> and changes no file.
\<close>

definition get_audio_quality :: "env \<Rightarrow> pypath \<Rightarrow> pypath \<Rightarrow> world \<Rightarrow> real option" where
  "get_audio_quality e original_file_path processed_file_path w =
     (case sf_read w original_file_path of
        Inl x \<Rightarrow> None
      | Inr (ref_data, ref_fs) \<Rightarrow>
          (case sf_read w processed_file_path of
             Inl x \<Rightarrow> None
           | Inr (deg_data, deg_fs) \<Rightarrow>
               if ref_fs \<noteq> REQUIRED_SAMPLE_RATE \<or> deg_fs \<noteq> REQUIRED_SAMPLE_RATE then None
               else
                 (let ref1 = first_channel ref_data;
                      deg1 = first_channel deg_data;
                      min_len = min (length ref1) (length deg1)
                  in case pesq e REQUIRED_SAMPLE_RATE (take min_len ref1) (take min_len deg1) PESQ_MODE of
                       Inl x \<Rightarrow> Some 1
                     | Inr score \<Rightarrow> Some score)))"

subsection \<open>The sweep worker and the collecting loop (main_script.py)\<close>

text \<open>
  The \<^verbatim>\<open>params\<close> dict of a job and the \<^verbatim>\<open>result_data\<close> dict of a sample share their keys;
  \<^verbatim>\<open>original_file\<close> is a path in the first and a file name in the second.
\<close>

record 'f job = config +
  original_file :: 'f
  packet_loss_perc :: real

type_synonym params = "pypath job"

record result_data = "string job" +
  pesq_mos_score :: real

text \<open>
  \<^verbatim>\<open>run_single_combination\<close>: the whole body is inside \<^verbatim>\<open>try\<close>/\<^verbatim>\<open>except Exception\<close>, so an
  exception of the pipeline becomes \<^verbatim>\<open>None\<close>. \<^verbatim>\<open>not score\<close> holds for \<^verbatim>\<open>None\<close> and for \<open>0.0\<close>.
\<close>

definition run_single_combination :: "env \<Rightarrow> params \<Rightarrow> world \<Rightarrow> result_data option \<times> world" where
  "run_single_combination e params w =
     (case process_audio_file e (original_file params) (bitrate params) (frame_size params)
             (complexity params) (use_fec params) (packet_loss_perc params) w of
        (Inl x, w1) \<Rightarrow> (None, w1)
      | (Inr None, w1) \<Rightarrow> (None, w1)
      | (Inr (Some processed_file), w1) \<Rightarrow>
          (case get_audio_quality e (original_file params) processed_file w1 of
             None \<Rightarrow> (None, unlink processed_file w1)
           | Some score \<Rightarrow>
               if score = 0 then (None, unlink processed_file w1)
               else
                 (Some \<lparr>bitrate = bitrate params, frame_size = frame_size params,
                        complexity = complexity params, use_fec = use_fec params,
                        original_file = name (original_file params),
                        packet_loss_perc = packet_loss_perc params,
                        pesq_mos_score = score\<rparr>,
                  unlink processed_file w1)))"

definition MAX_FILES_TO_PROCESS :: nat where
  "MAX_FILES_TO_PROCESS = 20"

definition BITRATES :: "int list" where
  "BITRATES = [8, 12, 16, 24, 32, 48]"

definition FRAME_SIZES :: "int list" where
  "FRAME_SIZES = [20, 40, 60]"

definition COMPLEXITIES :: "int list" where
  "COMPLEXITIES = [5, 9]"

definition FEC_STATUSES :: "bool list" where
  "FEC_STATUSES = [True, False]"

definition PACKET_LOSSES :: "real list" where
  "PACKET_LOSSES = [0, 1, 2, 3, 5, 7, 10]"

definition all_job_params :: "pypath list \<Rightarrow> params list" where
  "all_job_params audio_files =
     [\<lparr>bitrate = b, frame_size = f, complexity = c, use_fec = fec,
       original_file = file_path, packet_loss_perc = loss_perc\<rparr>.
        file_path \<leftarrow> take MAX_FILES_TO_PROCESS audio_files, b \<leftarrow> BITRATES, f \<leftarrow> FRAME_SIZES,
        c \<leftarrow> COMPLEXITIES, fec \<leftarrow> FEC_STATUSES, loss_perc \<leftarrow> PACKET_LOSSES]"

text \<open>
  The collecting loop of \<^verbatim>\<open>run_experiment_parallel\<close> over the results the pool yields:
  \<^verbatim>\<open>if result is not None: results_list.append(result)\<close>.
\<close>

fun collect_results :: "'a option list \<Rightarrow> 'a list \<Rightarrow> 'a list" where
  "collect_results [] results_list = results_list"
| "collect_results (None # jobs) results_list = collect_results jobs results_list"
| "collect_results (Some r # jobs) results_list = collect_results jobs (results_list @ [r])"

text \<open>
  \<^verbatim>\<open>pool.imap_unordered\<close> yields the workers' results in the order the jobs complete:
  \<open>completed\<close> lists the jobs in that order, and \<open>seen\<close> gives the world each worker
  process ran in.
\<close>

definition run_experiment_parallel :: "env \<Rightarrow> (params \<Rightarrow> world) \<Rightarrow> params list \<Rightarrow> result_data list" where
  "run_experiment_parallel e seen completed =
     collect_results (map (\<lambda>params. fst (run_single_combination e params (seen params))) completed) []"

subsection \<open>The evaluation harness (dashboard_engine.py)\<close>

text \<open>
  \<^verbatim>\<open>int(len(audio) * 16000 / sr)\<close> is taken exactly; \<^verbatim>\<open>sr == 0\<close> raises on the division.
\<close>

definition resample_to_16khz :: "env \<Rightarrow> int list \<Rightarrow> int \<Rightarrow> exc + (int list \<times> int)" where
  "resample_to_16khz e audio sr =
     (if sr = 16000 then Inr (audio, sr)
      else if sr = 0 then Inl ZeroDivisionError
      else (let num_samples = py_int (real (length audio) * 16000 / real_of_int sr)
            in Inr (resample e audio num_samples, 16000)))"

record metrics =
  mos :: "real option"
  config :: config
  processing_time_s :: real
  processed_file :: pypath

text \<open>
  \<^verbatim>\<open>run_audio_simulation\<close> has no \<^verbatim>\<open>try\<close>: an exception of \<^verbatim>\<open>sf.read\<close>, of the resampling,
  of \<^verbatim>\<open>sf.write\<close> or of \<^verbatim>\<open>process_audio_file\<close> leaves it, as does the \<^verbatim>\<open>ValueError\<close> of the
  dispatch and the \<^verbatim>\<open>TypeError\<close> of subscripting a \<^verbatim>\<open>None\<close> decision.
\<close>

text \<open>The \<^verbatim>\<open>if\<close>/\<^verbatim>\<open>elif\<close> chain that selects the controller, ending in the \<^verbatim>\<open>raise\<close>.\<close>

definition select_controller :: "string \<Rightarrow> real \<Rightarrow> predictor option \<Rightarrow> exc + config option" where
  "select_controller controller_type loss model =
     (if controller_type = ''static'' then Inr (Some (static_controller loss))
      else if controller_type = ''heuristic'' then Inr (Some (heuristic_controller loss))
      else if controller_type = ''ml_adaptive'' then Inr (ml_controller loss model)
      else if controller_type = ''hybrid'' then Inr (hybrid_controller loss model)
      else Inl (ValueError ''Unknown controller type''))"

text \<open>\<^verbatim>\<open>PROCESSED_AUDIO_DIR / f"temp_input_{int(time.time()*1000)}.wav"\<close>\<close>

definition temp_input_path :: "env \<Rightarrow> real \<Rightarrow> pypath" where
  "temp_input_path e t =
     \<lparr>parent = PROCESSED_AUDIO_DIR e,
      stem = ''temp_input_'' @ str_int (py_int (t * 1000)),
      suffix = ''.wav''\<rparr>"

definition run_audio_simulation ::
  "env \<Rightarrow> pypath \<Rightarrow> real \<Rightarrow> string \<Rightarrow> predictor option \<Rightarrow> world \<Rightarrow> (exc + metrics option) \<times> world"
where
  "run_audio_simulation e audio_path loss controller_type model w =
     (let (start, w0) = time_time e w
      in case sf_read w0 audio_path of
           Inl x \<Rightarrow> (Inl x, w0)
         | Inr (data, sr) \<Rightarrow>
             (case resample_to_16khz e (first_channel data) sr of
                Inl x \<Rightarrow> (Inl x, w0)
              | Inr (data_res, sr_res) \<Rightarrow>
                  (let (t, w1) = time_time e w0;
                       temp_input = temp_input_path e t;
                       (written, w2) = sf_write e temp_input data_res sr_res w1
                   in case written of
                        Inl x \<Rightarrow> (Inl x, w2)
                      | Inr u \<Rightarrow>
                          (case select_controller controller_type loss model of
                             Inl x \<Rightarrow> (Inl x, w2)
                           | Inr None \<Rightarrow> (Inl (TypeError ''NoneType object is not subscriptable''), w2)
                           | Inr (Some cfg) \<Rightarrow>
                               (case process_audio_file e temp_input (bitrate cfg) (frame_size cfg)
                                       (complexity cfg) (use_fec cfg) loss w2 of
                                  (Inl x, w3) \<Rightarrow> (Inl x, w3)
                                | (Inr None, w3) \<Rightarrow> (Inr None, unlink temp_input w3)
                                | (Inr (Some pf), w3) \<Rightarrow>
                                    (let m = get_audio_quality e temp_input pf w3;
                                         (end_t, w4) = time_time e w3
                                     in (Inr (Some \<lparr>mos = m, config = cfg,
                                                     processing_time_s = end_t - start,
                                                     processed_file = pf\<rparr>),
                                         unlink temp_input w4)))))))"

text \<open>
  \<^verbatim>\<open>load_model\<close>: \<open>model_path_exists\<close> is \<^verbatim>\<open>MODEL_PATH.exists()\<close> and \<open>loaded\<close> is what
  \<^verbatim>\<open>joblib.load(MODEL_PATH)\<close> does, the model or an exception.
\<close>

definition load_model :: "bool \<Rightarrow> exc + predictor \<Rightarrow> predictor option" where
  "load_model model_path_exists loaded =
     (if model_path_exists
      then (case loaded of Inl x \<Rightarrow> None | Inr m \<Rightarrow> Some m)
      else None)"

subsection \<open>A laboratory environment\<close>

text \<open>
  Concrete stand-ins for the external programs, used to run the definitions on explicit
  inputs. \<open>enc\<close> and \<open>dec\<close> are the exceptions \<^verbatim>\<open>subprocess.run\<close> raises for the encoder and
  the decoder (\<open>None\<close>: exit status 0); the encoder leaves an output file behind when
  \<open>enc_writes\<close> holds, the decoder writes a three-sample mono file at the requested rate
  when it succeeds; \<open>pq\<close> is what \<^verbatim>\<open>pesq\<close> does on every pair.
\<close>

definition lab_run ::
  "exc option \<Rightarrow> bool \<Rightarrow> exc option \<Rightarrow> command \<Rightarrow> (pypath \<rightharpoonup> file_content)
     \<Rightarrow> (exc + unit) \<times> (pypath \<rightharpoonup> file_content)"
where
  "lab_run enc enc_writes dec cmd fs =
     (case cmd of
        Opusenc br fsz cx flags inp out \<Rightarrow>
          ((case enc of None \<Rightarrow> Inr () | Some x \<Rightarrow> Inl x),
           (if enc_writes then fs(out \<mapsto> Blob) else fs))
      | Opusdec rate loss inp out \<Rightarrow>
          (case dec of
             None \<Rightarrow> (Inr (), fs(out \<mapsto> AudioFile (Mono [0, 1, 2]) rate))
           | Some x \<Rightarrow> (Inl x, fs)))"

definition lab_env :: "exc option \<Rightarrow> bool \<Rightarrow> exc option \<Rightarrow> exc + real \<Rightarrow> env" where
  "lab_env enc enc_writes dec pq =
     \<lparr>subprocess_run = lab_run enc enc_writes dec,
      pesq = (\<lambda>fs ref_data deg_data mode. pq),
      resample = (\<lambda>audio n. take (nat n) audio),
      py_str = (\<lambda>x. str_int \<lfloor>x\<rfloor> @ ''.0''),
      clock = (\<lambda>n. real n),
      sf_write_error = (\<lambda>p. None),
      home = ''/home/user''\<rparr>"

definition speech :: pypath where
  "speech = \<lparr>parent = ''/data'', stem = ''speech'', suffix = ''.flac''\<rparr>"

text \<open>A world holding one 16 kHz mono recording, and an empty one.\<close>

definition lab_world :: world where
  "lab_world = \<lparr>files = [speech \<mapsto> AudioFile (Mono [0, 1, 2, 3]) 16000], ticks = 0, trace = []\<rparr>"

definition empty_world :: world where
  "empty_world = \<lparr>files = Map.empty, ticks = 0, trace = []\<rparr>"

definition lab_job :: "real \<Rightarrow> params" where
  "lab_job loss =
     \<lparr>bitrate = 32, frame_size = 20, complexity = 5, use_fec = False,
      original_file = speech, packet_loss_perc = loss\<rparr>"

text \<open>
  Two predictors: one prefers bitrate 24 and is indifferent to everything else, so
  that twelve candidates tie at the top; one scores every candidate far below \<open>-1e9\<close>.
\<close>

definition prefers_24 :: predictor where
  "prefers_24 features = Inr (- \<bar>features ! 0 - 24\<bar>)"

definition far_below :: predictor where
  "far_below features = Inr (- 3000000000)"

text \<open>A predictor that raises on every input, as an unfitted estimator does.\<close>

definition always_raises :: predictor where
  "always_raises features = Inl (Raised ''NotFittedError'')"


text \<open>A job on a recording that does not exist.\<close>

definition missing :: pypath where
  "missing = \<lparr>parent = ''/data'', stem = ''missing'', suffix = ''.flac''\<rparr>"

definition ghost_job :: params where
  "ghost_job =
     \<lparr>bitrate = 8, frame_size = 60, complexity = 9, use_fec = True,
      original_file = missing, packet_loss_perc = 10\<rparr>"

text \<open>
  An environment in which both programs exit with status 0 and leave files that are no
  sound files.
\<close>

definition corrupt_env :: env where
  "corrupt_env =
     (lab_env None False None (Inr 3))
       \<lparr>subprocess_run :=
          (\<lambda>cmd fs. case cmd of
             Opusenc br fsz cx flags inp out \<Rightarrow> (Inr (), fs(out \<mapsto> Blob))
           | Opusdec rate loss inp out \<Rightarrow> (Inr (), fs(out \<mapsto> Blob)))\<rparr>"

section \<open>Properties\<close>

subsection \<open>The grid\<close>

lemma gen_mem:
  "c \<in> set generate_all_configs \<longleftrightarrow>
     (\<exists>b\<in>set bitrates. \<exists>f\<in>set frame_sizes. \<exists>cx\<in>set complexities. \<exists>e\<in>set fec_options.
        c = \<lparr>bitrate = b, frame_size = f, complexity = cx, use_fec = e\<rparr>)"
  by (auto simp add: generate_all_configs_def)

lemma gen_length: "length generate_all_configs = 72"
  by (simp add: generate_all_configs_def bitrates_def frame_sizes_def complexities_def
      fec_options_def)

lemma gen_distinct: "distinct generate_all_configs"
  by (simp add: generate_all_configs_def bitrates_def frame_sizes_def complexities_def
      fec_options_def)

lemma gen_set:
  "set generate_all_configs =
     {c. bitrate c \<in> {8, 12, 16, 24, 32, 48} \<and> frame_size c \<in> {20, 40, 60} \<and> complexity c \<in> {5, 9}}"
  (is "_ = ?G")
proof (rule set_eqI)
  fix c :: config
  have s: "c = \<lparr>bitrate = bitrate c, frame_size = frame_size c, complexity = complexity c,
                use_fec = use_fec c\<rparr>"
    by simp
  have sb: "set bitrates = {8, 12, 16, 24, 32, 48}" by (simp add: bitrates_def)
  have sf: "set frame_sizes = {20, 40, 60}" by (simp add: frame_sizes_def)
  have sc: "set complexities = {5, 9}" by (simp add: complexities_def)
  have se: "set fec_options = UNIV" by (auto simp add: fec_options_def)
  show "c \<in> set generate_all_configs \<longleftrightarrow> c \<in> ?G"
  proof
    assume "c \<in> set generate_all_configs"
    then obtain b f cx e where "b \<in> set bitrates" "f \<in> set frame_sizes" "cx \<in> set complexities"
      "c = \<lparr>bitrate = b, frame_size = f, complexity = cx, use_fec = e\<rparr>"
      unfolding gen_mem by blast
    then show "c \<in> ?G"
      unfolding sb sf sc by simp
  next
    assume "c \<in> ?G"
    then have "bitrate c \<in> set bitrates" "frame_size c \<in> set frame_sizes"
      "complexity c \<in> set complexities" "use_fec c \<in> set fec_options"
      unfolding sb sf sc se by simp_all
    with s show "c \<in> set generate_all_configs"
      unfolding gen_mem by blast
  qed
qed

text \<open>Position \<open>i * n + j\<close> of a concatenation of blocks of length \<open>n\<close>.\<close>

lemma nth_concat_blocks:
  "(\<And>x. x \<in> set xs \<Longrightarrow> length (f x) = n) \<Longrightarrow> i < length xs \<Longrightarrow> j < n \<Longrightarrow>
     concat (map f xs) ! (i * n + j) = f (xs ! i) ! j"
proof (induction xs arbitrary: i)
  case Nil
  then show ?case by simp
next
  case (Cons x xs)
  show ?case
  proof (cases i)
    case 0
    with Cons.prems show ?thesis by (simp add: nth_append)
  next
    case (Suc k)
    have "concat (map f xs) ! (k * n + j) = f (xs ! k) ! j"
      using Cons.IH [of k] Cons.prems Suc by simp
    moreover have "length (f x) = n"
      using Cons.prems(1) by simp
    ultimately show ?thesis
      using Suc by (simp add: nth_append)
  qed
qed

lemma gen_nth:
  assumes "bi < 6" "fi < 3" "ci < 2" "ei < 2"
  shows "generate_all_configs ! (((bi * 3 + fi) * 2 + ci) * 2 + ei) =
           \<lparr>bitrate = bitrates ! bi, frame_size = frame_sizes ! fi,
            complexity = complexities ! ci, use_fec = fec_options ! ei\<rparr>"
proof -
  let ?g3 = "\<lambda>b f c. map (\<lambda>fec. \<lparr>bitrate = b, frame_size = f, complexity = c, use_fec = fec\<rparr>)
                        fec_options"
  let ?g2 = "\<lambda>b f. concat (map (?g3 b f) complexities)"
  let ?g1 = "\<lambda>b. concat (map (?g2 b) frame_sizes)"
  have l3: "\<And>b f c. length (?g3 b f c) = 2"
    by (simp add: fec_options_def)
  have l2: "\<And>b f. length (?g2 b f) = 2 * 2"
    by (simp add: fec_options_def complexities_def)
  have l1: "\<And>b. length (?g1 b) = 3 * 2 * 2"
    by (simp add: fec_options_def complexities_def frame_sizes_def)
  have lb: "bi < length bitrates" using assms by (simp add: bitrates_def)
  have lf: "fi < length frame_sizes" using assms by (simp add: frame_sizes_def)
  have lc: "ci < length complexities" using assms by (simp add: complexities_def)
  have le: "ei < length fec_options" using assms by (simp add: fec_options_def)
  have i1: "(fi * 2 + ci) * 2 + ei < 3 * 2 * 2" using assms by simp
  have i2: "ci * 2 + ei < 2 * 2" using assms by simp
  have idx: "((bi * 3 + fi) * 2 + ci) * 2 + ei = bi * (3 * 2 * 2) + ((fi * 2 + ci) * 2 + ei)"
    by simp
  have idx2: "(fi * 2 + ci) * 2 + ei = fi * (2 * 2) + (ci * 2 + ei)"
    by simp
  have "generate_all_configs ! (((bi * 3 + fi) * 2 + ci) * 2 + ei) =
          ?g1 (bitrates ! bi) ! ((fi * 2 + ci) * 2 + ei)"
    unfolding generate_all_configs_def idx
    by (rule nth_concat_blocks [OF l1 lb i1])
  also have "\<dots> = ?g2 (bitrates ! bi) (frame_sizes ! fi) ! (ci * 2 + ei)"
    unfolding idx2 by (rule nth_concat_blocks [OF l2 lf i2])
  also have "\<dots> = ?g3 (bitrates ! bi) (frame_sizes ! fi) (complexities ! ci) ! ei"
    by (rule nth_concat_blocks [OF l3 lc assms(4)])
  also have "\<dots> = \<lparr>bitrate = bitrates ! bi, frame_size = frame_sizes ! fi,
                    complexity = complexities ! ci, use_fec = fec_options ! ei\<rparr>"
    using le by simp
  finally show ?thesis .
qed

lemma gen_first:
  "generate_all_configs ! 0 = \<lparr>bitrate = 8, frame_size = 20, complexity = 5, use_fec = False\<rparr>"
  using gen_nth [of 0 0 0 0]
  by (simp add: bitrates_def frame_sizes_def complexities_def fec_options_def)

text \<open>
  C4: \<^verbatim>\<open>generate_all_configs\<close> returns 72 pairwise distinct configurations, exactly the
  combinations of bitrate in {8,12,16,24,32,48}, frame size in {20,40,60}, complexity in
  {5,9} and FEC off or on, and the combination of the \<open>bi\<close>-th bitrate, \<open>fi\<close>-th frame
  size, \<open>ci\<close>-th complexity and \<open>ei\<close>-th FEC option stands at position
  \<open>((bi * 3 + fi) * 2 + ci) * 2 + ei\<close>: bitrate outermost, FEC innermost. The function has
  no argument and no state, so every call returns this list.
\<close>

theorem generate_all_configs_grid:
  "length generate_all_configs = 72 \<and> distinct generate_all_configs \<and>
   set generate_all_configs =
     {c. bitrate c \<in> {8, 12, 16, 24, 32, 48} \<and> frame_size c \<in> {20, 40, 60} \<and>
         complexity c \<in> {5, 9} \<and> use_fec c \<in> {False, True}} \<and>
   (\<forall>bi<6. \<forall>fi<3. \<forall>ci<2. \<forall>ei<2.
      generate_all_configs ! (((bi * 3 + fi) * 2 + ci) * 2 + ei) =
        \<lparr>bitrate = [8, 12, 16, 24, 32, 48] ! bi, frame_size = [20, 40, 60] ! fi,
         complexity = [5, 9] ! ci, use_fec = [False, True] ! ei\<rparr>)"
proof -
  have "{c. bitrate c \<in> {8, 12, 16, 24, 32, 48} \<and> frame_size c \<in> {20, 40, 60} \<and>
            complexity c \<in> {5, 9} \<and> use_fec c \<in> {False, True}} =
        {c. bitrate c \<in> {8, 12, 16, 24, 32, 48} \<and> frame_size c \<in> {20, 40, 60} \<and>
            complexity c \<in> {5, 9}}"
    by auto
  then have "set generate_all_configs =
     {c. bitrate c \<in> {8, 12, 16, 24, 32, 48} \<and> frame_size c \<in> {20, 40, 60} \<and>
         complexity c \<in> {5, 9} \<and> use_fec c \<in> {False, True}}"
    using gen_set by simp
  moreover have "\<forall>bi<6. \<forall>fi<3. \<forall>ci<2. \<forall>ei<2.
      generate_all_configs ! (((bi * 3 + fi) * 2 + ci) * 2 + ei) =
        \<lparr>bitrate = [8, 12, 16, 24, 32, 48] ! bi, frame_size = [20, 40, 60] ! fi,
         complexity = [5, 9] ! ci, use_fec = [False, True] ! ei\<rparr>"
    using gen_nth
    unfolding bitrates_def frame_sizes_def complexities_def fec_options_def by blast
  ultimately show ?thesis
    using gen_length gen_distinct by blast
qed

theorem generate_all_configs_grid_witness:
  "generate_all_configs ! 22 = \<lparr>bitrate = 12, frame_size = 60, complexity = 9, use_fec = False\<rparr> \<and>
   generate_all_configs ! 71 = \<lparr>bitrate = 48, frame_size = 60, complexity = 9, use_fec = True\<rparr>"
proof -
  have a: "(1::nat) < 6" "(2::nat) < 3" "(1::nat) < 2" "(0::nat) < 2" by simp_all
  have b: "(5::nat) < 6" by simp
  have g: "\<forall>bi<6. \<forall>fi<3. \<forall>ci<2. \<forall>ei<2.
      generate_all_configs ! (((bi * 3 + fi) * 2 + ci) * 2 + ei) =
        \<lparr>bitrate = [8, 12, 16, 24, 32, 48] ! bi, frame_size = [20, 40, 60] ! fi,
         complexity = [5, 9] ! ci, use_fec = [False, True] ! ei\<rparr>"
    using generate_all_configs_grid by blast
  have "generate_all_configs ! (((1 * 3 + 2) * 2 + 1) * 2 + 0) =
        \<lparr>bitrate = [8, 12, 16, 24, 32, 48] ! 1, frame_size = [20, 40, 60] ! 2,
         complexity = [5, 9] ! 1, use_fec = [False, True] ! 0\<rparr>"
    using g a by blast
  moreover have "generate_all_configs ! (((5 * 3 + 2) * 2 + 1) * 2 + 1) =
        \<lparr>bitrate = [8, 12, 16, 24, 32, 48] ! 5, frame_size = [20, 40, 60] ! 2,
         complexity = [5, 9] ! 1, use_fec = [False, True] ! 1\<rparr>"
    using g a b by blast
  ultimately show ?thesis by simp
qed

subsection \<open>The controllers\<close>

text \<open>
  C2: \<^verbatim>\<open>heuristic_controller\<close> always returns frame size 20, complexity 5 and no FEC, with
  bitrate 48 for a loss below 2, 24 from 2 up to but excluding 5, 16 from 5 up to but
  excluding 10, and 12 from 10 on; each band contains its lower end.
\<close>

theorem heuristic_controller_tiers:
  "frame_size (heuristic_controller loss) = 20 \<and>
   complexity (heuristic_controller loss) = 5 \<and>
   use_fec (heuristic_controller loss) = False \<and>
   (loss < 2 \<longrightarrow> bitrate (heuristic_controller loss) = 48) \<and>
   (2 \<le> loss \<and> loss < 5 \<longrightarrow> bitrate (heuristic_controller loss) = 24) \<and>
   (5 \<le> loss \<and> loss < 10 \<longrightarrow> bitrate (heuristic_controller loss) = 16) \<and>
   (10 \<le> loss \<longrightarrow> bitrate (heuristic_controller loss) = 12)"
  by (simp add: heuristic_controller_def)

theorem heuristic_controller_tiers_witness:
  "bitrate (heuristic_controller 1.9) = 48 \<and>
   heuristic_controller 2 = \<lparr>bitrate = 24, frame_size = 20, complexity = 5, use_fec = False\<rparr> \<and>
   bitrate (heuristic_controller 4.999) = 24 \<and>
   heuristic_controller 5 = \<lparr>bitrate = 16, frame_size = 20, complexity = 5, use_fec = False\<rparr> \<and>
   bitrate (heuristic_controller 9.999) = 16 \<and>
   heuristic_controller 10 = \<lparr>bitrate = 12, frame_size = 20, complexity = 5, use_fec = False\<rparr>"
proof -
  have r: "\<And>c b. frame_size c = 20 \<Longrightarrow> complexity c = 5 \<Longrightarrow> use_fec c = False \<Longrightarrow> bitrate c = b \<Longrightarrow>
             c = \<lparr>bitrate = b, frame_size = 20, complexity = 5, use_fec = False\<rparr>"
    by simp
  have "bitrate (heuristic_controller 1.9) = 48"
    using heuristic_controller_tiers [of "1.9"] by simp
  moreover have "heuristic_controller 2 = \<lparr>bitrate = 24, frame_size = 20, complexity = 5, use_fec = False\<rparr>"
    using heuristic_controller_tiers [of 2] by (intro r) simp_all
  moreover have "bitrate (heuristic_controller 4.999) = 24"
    using heuristic_controller_tiers [of "4.999"] by simp
  moreover have "heuristic_controller 5 = \<lparr>bitrate = 16, frame_size = 20, complexity = 5, use_fec = False\<rparr>"
    using heuristic_controller_tiers [of 5] by (intro r) simp_all
  moreover have "bitrate (heuristic_controller 9.999) = 16"
    using heuristic_controller_tiers [of "9.999"] by simp
  moreover have "heuristic_controller 10 = \<lparr>bitrate = 12, frame_size = 20, complexity = 5, use_fec = False\<rparr>"
    using heuristic_controller_tiers [of 10] by (intro r) simp_all
  ultimately show ?thesis by blast
qed

text \<open>
  C3: \<^verbatim>\<open>hybrid_controller\<close> returns the choice of \<^verbatim>\<open>ml_controller\<close> for a loss below 5 and
  the choice of \<^verbatim>\<open>static_controller\<close> from 5 on, 5 itself included; \<^verbatim>\<open>static_controller\<close>
  returns bitrate 32, frame size 20, complexity 5, no FEC whatever the loss.
\<close>

theorem hybrid_controller_dispatch:
  "(loss < 5 \<longrightarrow> hybrid_controller loss model = ml_controller loss model) \<and>
   (5 \<le> loss \<longrightarrow> hybrid_controller loss model = Some (static_controller loss)) \<and>
   static_controller loss = \<lparr>bitrate = 32, frame_size = 20, complexity = 5, use_fec = False\<rparr>"
  by (simp add: hybrid_controller_def static_controller_def)

theorem hybrid_controller_dispatch_witness:
  "hybrid_controller 4.999 None = ml_controller 4.999 None \<and>
   hybrid_controller 5 None =
     Some \<lparr>bitrate = 32, frame_size = 20, complexity = 5, use_fec = False\<rparr> \<and>
   hybrid_controller 7 None =
     Some \<lparr>bitrate = 32, frame_size = 20, complexity = 5, use_fec = False\<rparr>"
  using hybrid_controller_dispatch [of "4.999" None] hybrid_controller_dispatch [of 5 None]
    hybrid_controller_dispatch [of 7 None]
  by simp

text \<open>The loop keeps its accumulator when no candidate scores above it.\<close>

lemma ml_loop_none_above:
  "(\<And>c. c \<in> set cs \<Longrightarrow> pred_of model loss c \<le> s) \<Longrightarrow>
     ml_loop model loss cs (b, s) = (b, s)"
proof (induction cs)
  case Nil
  then show ?case by simp
next
  case (Cons c cs)
  have "\<not> pred_of model loss c > s"
    using Cons.prems [of c] by simp
  moreover have "ml_loop model loss cs (b, s) = (b, s)"
    using Cons by simp
  ultimately show ?case by simp
qed

text \<open>Otherwise it ends on the first candidate of maximal score.\<close>

lemma ml_loop_first_max:
  "\<exists>c\<in>set cs. pred_of model loss c > s \<Longrightarrow>
   \<exists>i<length cs. ml_loop model loss cs (b, s) = (Some (cs ! i), pred_of model loss (cs ! i))
      \<and> s < pred_of model loss (cs ! i)
      \<and> (\<forall>j<length cs. pred_of model loss (cs ! j) \<le> pred_of model loss (cs ! i))
      \<and> (\<forall>j<i. pred_of model loss (cs ! j) < pred_of model loss (cs ! i))"
proof (induction cs arbitrary: b s)
  case Nil
  then show ?case by simp
next
  case (Cons c cs)
  let ?p = "pred_of model loss"
  show ?case
  proof (cases "?p c > s")
    case True
    note head_wins = True
    show ?thesis
    proof (cases "\<exists>d\<in>set cs. ?p d > ?p c")
      case True
      from Cons.IH [OF True, of "Some c"] obtain i where i: "i < length cs"
        "ml_loop model loss cs (Some c, ?p c) = (Some (cs ! i), ?p (cs ! i))"
        "?p c < ?p (cs ! i)"
        "\<forall>j<length cs. ?p (cs ! j) \<le> ?p (cs ! i)"
        "\<forall>j<i. ?p (cs ! j) < ?p (cs ! i)"
        by blast
      have "Suc i < length (c # cs)"
        using i(1) by simp
      moreover have "ml_loop model loss (c # cs) (b, s) =
          (Some ((c # cs) ! Suc i), ?p ((c # cs) ! Suc i))"
        using head_wins i(2) by simp
      moreover have "s < ?p ((c # cs) ! Suc i)"
        using head_wins i(3) by simp
      moreover have "\<forall>j<length (c # cs). ?p ((c # cs) ! j) \<le> ?p ((c # cs) ! Suc i)"
        using i(3,4) by (auto simp add: nth_Cons split: nat.splits)
      moreover have "\<forall>j<Suc i. ?p ((c # cs) ! j) < ?p ((c # cs) ! Suc i)"
        using i(3,5) by (auto simp add: nth_Cons split: nat.splits)
      ultimately show ?thesis by blast
    next
      case False
      then have le: "\<And>d. d \<in> set cs \<Longrightarrow> ?p d \<le> ?p c"
        by force
      have "ml_loop model loss (c # cs) (b, s) = (Some c, ?p c)"
        using head_wins ml_loop_none_above [OF le] by simp
      moreover have "\<forall>j<length (c # cs). ?p ((c # cs) ! j) \<le> ?p c"
        using le by (auto simp add: nth_Cons split: nat.splits)
      ultimately have "0 < length (c # cs) \<and>
          ml_loop model loss (c # cs) (b, s) = (Some ((c # cs) ! 0), ?p ((c # cs) ! 0)) \<and>
          s < ?p ((c # cs) ! 0) \<and>
          (\<forall>j<length (c # cs). ?p ((c # cs) ! j) \<le> ?p ((c # cs) ! 0)) \<and>
          (\<forall>j<0. ?p ((c # cs) ! j) < ?p ((c # cs) ! 0))"
        using head_wins by simp
      then show ?thesis by blast
    qed
  next
    case False
    then have ex: "\<exists>d\<in>set cs. ?p d > s"
      using Cons.prems by auto
    from Cons.IH [OF ex, of b] obtain i where i: "i < length cs"
      "ml_loop model loss cs (b, s) = (Some (cs ! i), ?p (cs ! i))"
      "s < ?p (cs ! i)"
      "\<forall>j<length cs. ?p (cs ! j) \<le> ?p (cs ! i)"
      "\<forall>j<i. ?p (cs ! j) < ?p (cs ! i)"
      by blast
    have "Suc i < length (c # cs)"
      using i(1) by simp
    moreover have "ml_loop model loss (c # cs) (b, s) =
        (Some ((c # cs) ! Suc i), ?p ((c # cs) ! Suc i))"
      using False i(2) by simp
    moreover have "s < ?p ((c # cs) ! Suc i)"
      using i(3) by simp
    moreover have "\<forall>j<length (c # cs). ?p ((c # cs) ! j) \<le> ?p ((c # cs) ! Suc i)"
      using False i(3,4) by (auto simp add: nth_Cons split: nat.splits)
    moreover have "\<forall>j<Suc i. ?p ((c # cs) ! j) < ?p ((c # cs) ! Suc i)"
      using False i(3,5) by (auto simp add: nth_Cons split: nat.splits)
    ultimately show ?thesis by blast
  qed
qed

lemma ml_controller_below_sentinel:
  "(\<And>c. c \<in> set generate_all_configs \<Longrightarrow> pred_of model loss c \<le> - 1000000000) \<Longrightarrow>
     ml_controller loss model = None"
  unfolding ml_controller_def by (simp add: ml_loop_none_above)

lemma ml_controller_above_sentinel:
  assumes "\<exists>c\<in>set generate_all_configs. - 1000000000 < pred_of model loss c"
  shows "\<exists>i<72. ml_controller loss model = Some (generate_all_configs ! i) \<and>
      (\<forall>j<72. pred_of model loss (generate_all_configs ! j)
                 \<le> pred_of model loss (generate_all_configs ! i)) \<and>
      (\<forall>j<i. pred_of model loss (generate_all_configs ! j)
                 < pred_of model loss (generate_all_configs ! i))"
proof -
  from ml_loop_first_max [OF assms, of None] obtain i where i: "i < length generate_all_configs"
    "ml_loop model loss generate_all_configs (None, - 1000000000) =
       (Some (generate_all_configs ! i), pred_of model loss (generate_all_configs ! i))"
    "\<forall>j<length generate_all_configs. pred_of model loss (generate_all_configs ! j)
        \<le> pred_of model loss (generate_all_configs ! i)"
    "\<forall>j<i. pred_of model loss (generate_all_configs ! j)
        < pred_of model loss (generate_all_configs ! i)"
    by blast
  have "ml_controller loss model = Some (generate_all_configs ! i)"
    unfolding ml_controller_def using i(2) by simp
  then show ?thesis
    using i(1,3,4) unfolding gen_length by blast
qed

lemma ml_controller_all_equal:
  assumes "\<And>c. c \<in> set generate_all_configs \<Longrightarrow> pred_of model loss c = v"
    and "- 1000000000 < v"
  shows "ml_controller loss model =
           Some \<lparr>bitrate = 8, frame_size = 20, complexity = 5, use_fec = False\<rparr>"
proof -
  have ne: "generate_all_configs ! 0 \<in> set generate_all_configs"
    by (rule nth_mem) (simp add: gen_length)
  then have "\<exists>c\<in>set generate_all_configs. - 1000000000 < pred_of model loss c"
    using assms by auto
  from ml_controller_above_sentinel [OF this] obtain i where i: "i < 72"
    "ml_controller loss model = Some (generate_all_configs ! i)"
    "\<forall>j<i. pred_of model loss (generate_all_configs ! j)
        < pred_of model loss (generate_all_configs ! i)"
    by blast
  have "i = 0"
  proof (rule ccontr)
    assume "i \<noteq> 0"
    then have "pred_of model loss (generate_all_configs ! 0)
        < pred_of model loss (generate_all_configs ! i)"
      using i(3) by simp
    moreover have "generate_all_configs ! i \<in> set generate_all_configs"
      by (rule nth_mem) (simp add: gen_length i(1))
    ultimately show False
      using assms(1) ne by simp
  qed
  then show ?thesis
    using i(2) gen_first by simp
qed

text \<open>
  C1, as amended: \<^verbatim>\<open>ml_controller\<close> scores each of the 72 grid configurations with the
  feature vector [bitrate, frame_size, use_fec as 0/1, loss], a raising \<^verbatim>\<open>predict\<close>
  counting as score 0. If some configuration scores above the initial
  \<^verbatim>\<open>best_score\<close> of \<open>-1e9\<close>, the result is the configuration of maximal score that comes
  first in grid order; if none does, the result is \<^verbatim>\<open>None\<close>.
\<close>

theorem ml_controller_first_argmax:
  "pred_of model loss cfg =
     (case predict model [real_of_int (bitrate cfg), real_of_int (frame_size cfg),
                          (if use_fec cfg then 1 else 0), loss] of
        Inl e \<Rightarrow> 0
      | Inr p \<Rightarrow> p) \<and>
   length generate_all_configs = 72 \<and>
   ((\<exists>c\<in>set generate_all_configs. - 1000000000 < pred_of model loss c) \<longrightarrow>
      (\<exists>i<72. ml_controller loss model = Some (generate_all_configs ! i) \<and>
         (\<forall>j<72. pred_of model loss (generate_all_configs ! j)
                    \<le> pred_of model loss (generate_all_configs ! i)) \<and>
         (\<forall>j<i. pred_of model loss (generate_all_configs ! j)
                    < pred_of model loss (generate_all_configs ! i)))) \<and>
   ((\<forall>c\<in>set generate_all_configs. pred_of model loss c \<le> - 1000000000) \<longrightarrow>
      ml_controller loss model = None)"
proof -
  have "pred_of model loss cfg =
     (case predict model [real_of_int (bitrate cfg), real_of_int (frame_size cfg),
                          (if use_fec cfg then 1 else 0), loss] of
        Inl e \<Rightarrow> 0
      | Inr p \<Rightarrow> p)"
    by (simp add: pred_of_def features_of_def)
  then show ?thesis
    using gen_length ml_controller_above_sentinel ml_controller_below_sentinel by blast
qed


lemma pred_of_prefers_24:
  "pred_of (Some prefers_24) loss c = - \<bar>real_of_int (bitrate c) - 24\<bar>"
  by (simp add: pred_of_def predict_def features_of_def prefers_24_def)

lemma pred_of_far_below: "pred_of (Some far_below) loss c = - 3000000000"
  by (simp add: pred_of_def predict_def far_below_def)

theorem ml_controller_first_argmax_witness:
  "(\<exists>c\<in>set generate_all_configs. - 1000000000 < pred_of (Some prefers_24) 3 c) \<and>
   (\<exists>i<72. ml_controller 3 (Some prefers_24) = Some (generate_all_configs ! i) \<and>
      (\<forall>j<72. pred_of (Some prefers_24) 3 (generate_all_configs ! j)
                 \<le> pred_of (Some prefers_24) 3 (generate_all_configs ! i)) \<and>
      (\<forall>j<i. pred_of (Some prefers_24) 3 (generate_all_configs ! j)
                 < pred_of (Some prefers_24) 3 (generate_all_configs ! i))) \<and>
   ml_controller 1 (Some far_below) = None"
proof -
  have "generate_all_configs ! 0 \<in> set generate_all_configs"
    by (rule nth_mem) (simp add: gen_length)
  moreover have "- 1000000000 < pred_of (Some prefers_24) 3 (generate_all_configs ! 0)"
    by (simp add: pred_of_prefers_24 gen_first)
  ultimately have h: "\<exists>c\<in>set generate_all_configs. - 1000000000 < pred_of (Some prefers_24) 3 c"
    by blast
  have k: "\<forall>c\<in>set generate_all_configs. pred_of (Some far_below) 1 c \<le> - 1000000000"
    by (simp add: pred_of_far_below)
  show ?thesis
    using h k ml_controller_first_argmax [of "Some prefers_24" 3]
      ml_controller_first_argmax [of "Some far_below" 1]
    by blast
qed

text \<open>
  The claim as stated fails: a predictor whose scores are all at or below \<open>-1e9\<close> never
  passes the test \<^verbatim>\<open>pred > best_score\<close>, and \<^verbatim>\<open>ml_controller\<close> returns \<^verbatim>\<open>None\<close>, which is
  no grid configuration.
\<close>

theorem ml_controller_returns_none_counterexample:
  "ml_controller 0 (Some (\<lambda>features. Inr (- 2000000000))) = None"
  by (rule ml_controller_below_sentinel) (simp add: pred_of_def predict_def)

text \<open>
  C10: with \<^verbatim>\<open>model=None\<close>, which is what \<^verbatim>\<open>load_model\<close> returns when the artifact is absent
  or fails to load, or with a predictor that raises on the feature vector of every grid
  configuration, every candidate scores 0 and \<^verbatim>\<open>ml_controller\<close> returns the first grid
  entry, bitrate 8, frame size 20, complexity 5, no FEC; \<^verbatim>\<open>hybrid_controller\<close> returns
  the same for a loss below 5.
\<close>

theorem ml_controller_unusable_predictor:
  "load_model False loaded = None \<and>
   load_model True (Inl x) = None \<and>
   pred_of None loss c = 0 \<and>
   ml_controller loss None =
     Some \<lparr>bitrate = 8, frame_size = 20, complexity = 5, use_fec = False\<rparr> \<and>
   ((\<forall>c\<in>set generate_all_configs. \<exists>x. m (features_of c loss) = Inl x) \<longrightarrow>
      (\<forall>c\<in>set generate_all_configs. pred_of (Some m) loss c = 0) \<and>
      ml_controller loss (Some m) =
        Some \<lparr>bitrate = 8, frame_size = 20, complexity = 5, use_fec = False\<rparr>) \<and>
   (loss < 5 \<longrightarrow>
      hybrid_controller loss None =
        Some \<lparr>bitrate = 8, frame_size = 20, complexity = 5, use_fec = False\<rparr>) \<and>
   (loss < 5 \<and> (\<forall>c\<in>set generate_all_configs. \<exists>x. m (features_of c loss) = Inl x) \<longrightarrow>
      hybrid_controller loss (Some m) =
        Some \<lparr>bitrate = 8, frame_size = 20, complexity = 5, use_fec = False\<rparr>)"
proof -
  let ?first = "\<lparr>bitrate = 8, frame_size = 20, complexity = 5, use_fec = False\<rparr>"
  have z: "\<And>c. pred_of None loss c = 0"
    by (simp add: pred_of_def predict_def)
  have n: "ml_controller loss None = Some ?first"
    by (rule ml_controller_all_equal [where v = 0]) (simp_all add: z)
  have r: "ml_controller loss (Some m) = Some ?first \<and>
           (\<forall>c\<in>set generate_all_configs. pred_of (Some m) loss c = 0)"
    if a: "\<forall>c\<in>set generate_all_configs. \<exists>x. m (features_of c loss) = Inl x"
  proof -
    have p: "\<And>c. c \<in> set generate_all_configs \<Longrightarrow> pred_of (Some m) loss c = 0"
      using a by (auto simp add: pred_of_def predict_def)
    have "ml_controller loss (Some m) = Some ?first"
      by (rule ml_controller_all_equal [where v = 0]) (simp_all add: p)
    then show ?thesis using p by blast
  qed
  show ?thesis
    using z n r by (simp add: hybrid_controller_def load_model_def)
qed

theorem ml_controller_unusable_predictor_witness:
  "(\<forall>c. always_raises (features_of c 3) = Inl (Raised ''NotFittedError'')) \<and>
   ml_controller 3 (Some always_raises) =
     Some \<lparr>bitrate = 8, frame_size = 20, complexity = 5, use_fec = False\<rparr> \<and>
   hybrid_controller 3 (Some always_raises) =
     Some \<lparr>bitrate = 8, frame_size = 20, complexity = 5, use_fec = False\<rparr> \<and>
   hybrid_controller 3 None =
     Some \<lparr>bitrate = 8, frame_size = 20, complexity = 5, use_fec = False\<rparr> \<and>
   ml_controller 3 (load_model True (Inl (Raised ''UnpicklingError''))) =
     Some \<lparr>bitrate = 8, frame_size = 20, complexity = 5, use_fec = False\<rparr> \<and>
   ml_controller 3 (load_model False (Inr prefers_24)) =
     Some \<lparr>bitrate = 8, frame_size = 20, complexity = 5, use_fec = False\<rparr>"
proof -
  have a: "\<forall>c\<in>set generate_all_configs. \<exists>x. always_raises (features_of c 3) = Inl x"
    by (simp add: always_raises_def)
  have b: "(3::real) < 5" by simp
  show ?thesis
    using a b ml_controller_unusable_predictor [of "Inr prefers_24" "Raised ''UnpicklingError''"
        3 _ always_raises]
    by (simp add: always_raises_def)
qed

subsection \<open>The codec pipeline\<close>

text \<open>The three ways a run of the encoder can end, and what \<^verbatim>\<open>process_audio_file\<close> does next.\<close>

lemma process_audio_file_encode_failed:
  assumes "subprocess_run e (Opusenc br fs cx (if fec then [''--expect-loss'', ''5''] else []) inp
             (intermediate_opus_file e inp br fs cx fec loss)) (files w) = (Inl CalledProcessError, fs1)"
  shows "process_audio_file e inp br fs cx fec loss w =
           (Inr None,
            w\<lparr>files := fs1,
              trace := trace w @ [Opusenc br fs cx (if fec then [''--expect-loss'', ''5''] else []) inp
                (intermediate_opus_file e inp br fs cx fec loss)]\<rparr>)"
  using assms by (simp add: process_audio_file_def run_cmd_def Let_def)

lemma process_audio_file_encode_raised:
  assumes "subprocess_run e (Opusenc br fs cx (if fec then [''--expect-loss'', ''5''] else []) inp
             (intermediate_opus_file e inp br fs cx fec loss)) (files w) = (Inl x, fs1)"
    and "x \<noteq> CalledProcessError"
  shows "process_audio_file e inp br fs cx fec loss w =
           (Inl x,
            w\<lparr>files := fs1,
              trace := trace w @ [Opusenc br fs cx (if fec then [''--expect-loss'', ''5''] else []) inp
                (intermediate_opus_file e inp br fs cx fec loss)]\<rparr>)"
  using assms by (simp add: process_audio_file_def run_cmd_def Let_def)

lemma process_audio_file_encoded:
  assumes "subprocess_run e (Opusenc br fs cx (if fec then [''--expect-loss'', ''5''] else []) inp
             (intermediate_opus_file e inp br fs cx fec loss)) (files w) = (Inr (), fs1)"
    and "subprocess_run e (Opusdec 16000 loss (intermediate_opus_file e inp br fs cx fec loss)
             (final_wav_file e inp br fs cx fec loss)) fs1 = (r2, fs2)"
  shows "process_audio_file e inp br fs cx fec loss w =
           (let tr = trace w @
                  [Opusenc br fs cx (if fec then [''--expect-loss'', ''5''] else []) inp
                     (intermediate_opus_file e inp br fs cx fec loss),
                   Opusdec 16000 loss (intermediate_opus_file e inp br fs cx fec loss)
                     (final_wav_file e inp br fs cx fec loss)]
            in case r2 of
                 Inl x \<Rightarrow>
                   if x = CalledProcessError
                   then (Inr None,
                         w\<lparr>files := fs2(intermediate_opus_file e inp br fs cx fec loss := None),
                           trace := tr\<rparr>)
                   else (Inl x, w\<lparr>files := fs2, trace := tr\<rparr>)
               | Inr u \<Rightarrow>
                   (Inr (Some (final_wav_file e inp br fs cx fec loss)),
                    w\<lparr>files := fs2(intermediate_opus_file e inp br fs cx fec loss := None),
                      trace := tr\<rparr>))"
  using assms
  by (simp add: process_audio_file_def run_cmd_def unlink_def Let_def split: sum.splits)

text \<open>
  After a successful decode and after a decode that exits with a nonzero status, the
  intermediate file is gone.
\<close>

lemma process_audio_file_unlinks_after_decode:
  assumes "fst (subprocess_run e (Opusenc br fs cx (if fec then [''--expect-loss'', ''5''] else []) inp
             (intermediate_opus_file e inp br fs cx fec loss)) (files w)) = Inr ()"
    and "fst (process_audio_file e inp br fs cx fec loss w) = Inr r"
  shows "files (snd (process_audio_file e inp br fs cx fec loss w))
           (intermediate_opus_file e inp br fs cx fec loss) = None"
proof -
  obtain fs1 where a: "subprocess_run e (Opusenc br fs cx (if fec then [''--expect-loss'', ''5''] else [])
      inp (intermediate_opus_file e inp br fs cx fec loss)) (files w) = (Inr (), fs1)"
    using assms(1) by (metis prod.collapse)
  obtain r2 fs2 where b: "subprocess_run e (Opusdec 16000 loss
      (intermediate_opus_file e inp br fs cx fec loss)
      (final_wav_file e inp br fs cx fec loss)) fs1 = (r2, fs2)"
    by (metis prod.collapse)
  show ?thesis
    using assms(2) unfolding process_audio_file_encoded [OF a b]
    by (auto simp add: Let_def split: sum.splits if_splits)
qed

text \<open>The laboratory environment on one call of \<^verbatim>\<open>process_audio_file\<close>.\<close>

lemma lab_process_encode_failed:
  "process_audio_file (lab_env (Some CalledProcessError) ew dec pq) inp br fs cx fec loss w =
     (Inr None,
      w\<lparr>files := (if ew then (files w)(intermediate_opus_file (lab_env (Some CalledProcessError) ew dec pq)
                                          inp br fs cx fec loss \<mapsto> Blob)
                  else files w),
        trace := trace w @ [Opusenc br fs cx (if fec then [''--expect-loss'', ''5''] else []) inp
          (intermediate_opus_file (lab_env (Some CalledProcessError) ew dec pq) inp br fs cx fec loss)]\<rparr>)"
  by (rule process_audio_file_encode_failed) (simp add: lab_env_def lab_run_def)

lemma lab_process_encode_raised:
  "x \<noteq> CalledProcessError \<Longrightarrow>
   fst (process_audio_file (lab_env (Some x) ew dec pq) inp br fs cx fec loss w) = Inl x"
  by (subst process_audio_file_encode_raised [where x = x]) (simp_all add: lab_env_def lab_run_def)

lemma lab_process_ok:
  "process_audio_file (lab_env None ew None pq) inp br fs cx fec loss w =
     (Inr (Some (final_wav_file (lab_env None ew None pq) inp br fs cx fec loss)),
      w\<lparr>files :=
          ((if ew then (files w)(intermediate_opus_file (lab_env None ew None pq) inp br fs cx fec loss
                                   \<mapsto> Blob)
            else files w)
           (final_wav_file (lab_env None ew None pq) inp br fs cx fec loss
              \<mapsto> AudioFile (Mono [0, 1, 2]) 16000))
          (intermediate_opus_file (lab_env None ew None pq) inp br fs cx fec loss := None),
        trace := trace w @
          [Opusenc br fs cx (if fec then [''--expect-loss'', ''5''] else []) inp
             (intermediate_opus_file (lab_env None ew None pq) inp br fs cx fec loss),
           Opusdec 16000 loss (intermediate_opus_file (lab_env None ew None pq) inp br fs cx fec loss)
             (final_wav_file (lab_env None ew None pq) inp br fs cx fec loss)]\<rparr>)"
  by (subst process_audio_file_encoded [where ?r2.0 = "Inr ()"])
     (simp_all add: lab_env_def lab_run_def)

lemma lab_process_decode_failed:
  "fst (process_audio_file (lab_env None ew (Some CalledProcessError) pq) inp br fs cx fec loss w) =
     Inr None"
  by (subst process_audio_file_encoded [where ?r2.0 = "Inl CalledProcessError"])
     (simp_all add: lab_env_def lab_run_def)

lemma opus_not_wav:
  "intermediate_opus_file e inp br fs cx fec loss \<noteq> final_wav_file e' inp' br' fs' cx' fec' loss'"
  by (simp add: intermediate_opus_file_def final_wav_file_def)

lemma speech_not_processed:
  "speech \<noteq> final_wav_file (lab_env enc ew dec pq) inp br fs cx fec loss"
  "speech \<noteq> intermediate_opus_file (lab_env enc ew dec pq) inp br fs cx fec loss"
  by (simp_all add: speech_def final_wav_file_def intermediate_opus_file_def)

text \<open>
  C7 fails on the encode-failure path: when \<^verbatim>\<open>opusenc\<close> exits with a nonzero status after
  it has created its output file, \<^verbatim>\<open>process_audio_file\<close> returns \<^verbatim>\<open>None\<close> and the \<^verbatim>\<open>.opus\<close> file
  is still there.
\<close>

theorem process_audio_file_encode_failure_keeps_opus:
  "fst (process_audio_file (lab_env (Some CalledProcessError) True None (Inr 3)) speech 32 20 5 False 5
          lab_world) = Inr None \<and>
   files (snd (process_audio_file (lab_env (Some CalledProcessError) True None (Inr 3)) speech 32 20 5
                 False 5 lab_world))
     (intermediate_opus_file (lab_env (Some CalledProcessError) True None (Inr 3)) speech 32 20 5
        False 5) = Some Blob"
  by (simp add: lab_process_encode_failed)

subsection \<open>The scorer and the worker\<close>

lemma lab_env_fields:
  "pesq (lab_env enc ew dec pq) = (\<lambda>fs ref_data deg_data mode. pq)"
  "sf_write_error (lab_env enc ew dec pq) = (\<lambda>p. None)"
  "clock (lab_env enc ew dec pq) = (\<lambda>n. real n)"
  "home (lab_env enc ew dec pq) = ''/home/user''"
  by (simp_all add: lab_env_def)

lemma missing_not_processed:
  "missing \<noteq> final_wav_file (lab_env enc ew dec pq) inp br fs cx fec loss"
  "missing \<noteq> intermediate_opus_file (lab_env enc ew dec pq) inp br fs cx fec loss"
  by (simp_all add: missing_def final_wav_file_def intermediate_opus_file_def)

lemma missing_not_speech: "missing \<noteq> speech"
  by (simp add: missing_def speech_def)

lemma run_single_combination_raised:
  "fst (process_audio_file e (original_file p) (bitrate p) (frame_size p) (complexity p)
          (use_fec p) (packet_loss_perc p) w) = Inl x \<Longrightarrow>
   fst (run_single_combination e p w) = None"
  by (cases "process_audio_file e (original_file p) (bitrate p) (frame_size p) (complexity p)
          (use_fec p) (packet_loss_perc p) w")
     (simp add: run_single_combination_def)

lemma run_single_combination_no_file:
  "fst (process_audio_file e (original_file p) (bitrate p) (frame_size p) (complexity p)
          (use_fec p) (packet_loss_perc p) w) = Inr None \<Longrightarrow>
   fst (run_single_combination e p w) = None"
  by (cases "process_audio_file e (original_file p) (bitrate p) (frame_size p) (complexity p)
          (use_fec p) (packet_loss_perc p) w")
     (simp add: run_single_combination_def)

lemma run_single_combination_scored:
  assumes "fst (process_audio_file e (original_file p) (bitrate p) (frame_size p) (complexity p)
          (use_fec p) (packet_loss_perc p) w) = Inr (Some pf)"
  shows "run_single_combination e p w =
     (let w1 = snd (process_audio_file e (original_file p) (bitrate p) (frame_size p)
                      (complexity p) (use_fec p) (packet_loss_perc p) w)
      in case get_audio_quality e (original_file p) pf w1 of
           None \<Rightarrow> (None, unlink pf w1)
         | Some score \<Rightarrow>
             if score = 0 then (None, unlink pf w1)
             else (Some \<lparr>bitrate = bitrate p, frame_size = frame_size p,
                         complexity = complexity p, use_fec = use_fec p,
                         original_file = name (original_file p),
                         packet_loss_perc = packet_loss_perc p,
                         pesq_mos_score = score\<rparr>,
                   unlink pf w1))"
  using assms
  by (cases "process_audio_file e (original_file p) (bitrate p) (frame_size p) (complexity p)
          (use_fec p) (packet_loss_perc p) w")
     (simp add: run_single_combination_def)

lemma get_audio_quality_unreadable:
  "sf_read w orig = Inl x \<Longrightarrow> get_audio_quality e orig proc w = None"
  "sf_read w proc = Inl x \<Longrightarrow> get_audio_quality e orig proc w = None"
  by (simp_all add: get_audio_quality_def split: sum.splits prod.splits)

lemma get_audio_quality_rate:
  "sf_read w orig = Inr (d, sr) \<Longrightarrow> sr \<noteq> 16000 \<Longrightarrow> get_audio_quality e orig proc w = None"
  "sf_read w proc = Inr (d, sr) \<Longrightarrow> sr \<noteq> 16000 \<Longrightarrow> get_audio_quality e orig proc w = None"
  by (simp_all add: get_audio_quality_def REQUIRED_SAMPLE_RATE_def split: sum.splits prod.splits)

lemma get_audio_quality_pesq:
  assumes "sf_read w orig = Inr (rd, 16000)" "sf_read w proc = Inr (dd, 16000)"
  shows "get_audio_quality e orig proc w =
     (case pesq e 16000
             (take (min (length (first_channel rd)) (length (first_channel dd))) (first_channel rd))
             (take (min (length (first_channel rd)) (length (first_channel dd))) (first_channel dd))
             ''wb'' of
        Inl x \<Rightarrow> Some 1
      | Inr score \<Rightarrow> Some score)"
  using assms
  by (simp add: get_audio_quality_def REQUIRED_SAMPLE_RATE_def PESQ_MODE_def Let_def)

text \<open>The laboratory worker on the recording that exists, and on the one that does not.\<close>

lemma lab_quality:
  "get_audio_quality (lab_env None ew None pq) speech
     (final_wav_file (lab_env None ew None pq) speech br fs cx fec loss)
     (snd (process_audio_file (lab_env None ew None pq) speech br fs cx fec loss lab_world)) =
   (case pq of Inl x \<Rightarrow> Some 1 | Inr score \<Rightarrow> Some score)"
proof -
  let ?e = "lab_env None ew None pq"
  let ?w1 = "snd (process_audio_file ?e speech br fs cx fec loss lab_world)"
  have a: "sf_read ?w1 speech = Inr (Mono [0, 1, 2, 3], 16000)"
    by (simp add: lab_process_ok sf_read_def lab_world_def speech_not_processed)
  have b: "sf_read ?w1 (final_wav_file ?e speech br fs cx fec loss) = Inr (Mono [0, 1, 2], 16000)"
    using opus_not_wav [of ?e speech br fs cx fec loss ?e speech br fs cx fec loss]
    by (simp add: lab_process_ok sf_read_def lab_world_def)
  show ?thesis
    unfolding get_audio_quality_pesq [OF a b] by (simp add: lab_env_fields)
qed

lemma lab_quality_missing:
  "get_audio_quality (lab_env None ew None pq) missing
     (final_wav_file (lab_env None ew None pq) missing br fs cx fec loss)
     (snd (process_audio_file (lab_env None ew None pq) missing br fs cx fec loss lab_world)) = None"
proof -
  let ?e = "lab_env None ew None pq"
  let ?w1 = "snd (process_audio_file ?e missing br fs cx fec loss lab_world)"
  have "sf_read ?w1 missing = Inl (Raised ''LibsndfileError'')"
    by (simp add: lab_process_ok sf_read_def lab_world_def missing_not_processed missing_not_speech)
  then show ?thesis
    by (rule get_audio_quality_unreadable)
qed

lemma lab_job_fields:
  "original_file (lab_job loss) = speech" "bitrate (lab_job loss) = 32"
  "frame_size (lab_job loss) = 20" "complexity (lab_job loss) = 5"
  "use_fec (lab_job loss) = False" "packet_loss_perc (lab_job loss) = loss"
  by (simp_all add: lab_job_def)

lemma ghost_job_fields:
  "original_file ghost_job = missing" "bitrate ghost_job = 8"
  "frame_size ghost_job = 60" "complexity ghost_job = 9"
  "use_fec ghost_job = True" "packet_loss_perc ghost_job = 10"
  by (simp_all add: ghost_job_def)

text \<open>
  C6: when both files are read at 16000 Hz and \<^verbatim>\<open>pesq\<close> raises, \<^verbatim>\<open>get_audio_quality\<close> returns
  1.0, and the worker whose pipeline produced the processed file returns a sample with
  that score; when a file cannot be read or its sample rate is not 16000,
  \<^verbatim>\<open>get_audio_quality\<close> returns \<^verbatim>\<open>None\<close> and the worker returns \<^verbatim>\<open>None\<close>, no sample.
\<close>

theorem get_audio_quality_floor_or_none:
  "(sf_read w orig = Inr (rd, 16000) \<and> sf_read w proc = Inr (dd, 16000) \<and>
    pesq e 16000
      (take (min (length (first_channel rd)) (length (first_channel dd))) (first_channel rd))
      (take (min (length (first_channel rd)) (length (first_channel dd))) (first_channel dd))
      ''wb'' = Inl x
    \<longrightarrow> get_audio_quality e orig proc w = Some 1) \<and>
   (sf_read w orig = Inl x \<or> sf_read w proc = Inl x
    \<longrightarrow> get_audio_quality e orig proc w = None) \<and>
   ((sf_read w orig = Inr (d, sr) \<or> sf_read w proc = Inr (d, sr)) \<and> sr \<noteq> 16000
    \<longrightarrow> get_audio_quality e orig proc w = None) \<and>
   (fst (process_audio_file e (original_file p) (bitrate p) (frame_size p) (complexity p)
           (use_fec p) (packet_loss_perc p) w0) = Inr (Some pf) \<and>
    get_audio_quality e (original_file p) pf
      (snd (process_audio_file e (original_file p) (bitrate p) (frame_size p) (complexity p)
              (use_fec p) (packet_loss_perc p) w0)) = Some 1
    \<longrightarrow> fst (run_single_combination e p w0) =
          Some \<lparr>bitrate = bitrate p, frame_size = frame_size p, complexity = complexity p,
                use_fec = use_fec p, original_file = name (original_file p),
                packet_loss_perc = packet_loss_perc p, pesq_mos_score = 1\<rparr>) \<and>
   (fst (process_audio_file e (original_file p) (bitrate p) (frame_size p) (complexity p)
           (use_fec p) (packet_loss_perc p) w0) = Inr (Some pf) \<and>
    get_audio_quality e (original_file p) pf
      (snd (process_audio_file e (original_file p) (bitrate p) (frame_size p) (complexity p)
              (use_fec p) (packet_loss_perc p) w0)) = None
    \<longrightarrow> fst (run_single_combination e p w0) = None)"
proof -
  have 1: "get_audio_quality e orig proc w = Some 1"
    if "sf_read w orig = Inr (rd, 16000)" "sf_read w proc = Inr (dd, 16000)"
      "pesq e 16000
        (take (min (length (first_channel rd)) (length (first_channel dd))) (first_channel rd))
        (take (min (length (first_channel rd)) (length (first_channel dd))) (first_channel dd))
        ''wb'' = Inl x"
    using that by (simp add: get_audio_quality_pesq)
  have 2: "get_audio_quality e orig proc w = None"
    if "sf_read w orig = Inl x \<or> sf_read w proc = Inl x"
    using that get_audio_quality_unreadable by blast
  have 3: "get_audio_quality e orig proc w = None"
    if "(sf_read w orig = Inr (d, sr) \<or> sf_read w proc = Inr (d, sr)) \<and> sr \<noteq> 16000"
    using that get_audio_quality_rate by blast
  show ?thesis
    using 1 2 3 by (simp add: run_single_combination_scored Let_def)
qed

theorem get_audio_quality_floor_or_none_witness:
  "get_audio_quality (lab_env None False None (Inl (Raised ''PesqError''))) speech
     (final_wav_file (lab_env None False None (Inl (Raised ''PesqError''))) speech 32 20 5 False 5)
     (snd (process_audio_file (lab_env None False None (Inl (Raised ''PesqError''))) speech
             32 20 5 False 5 lab_world)) = Some 1 \<and>
   fst (run_single_combination (lab_env None False None (Inl (Raised ''PesqError''))) (lab_job 5)
          lab_world) =
     Some \<lparr>bitrate = 32, frame_size = 20, complexity = 5, use_fec = False,
           original_file = ''speech.flac'', packet_loss_perc = 5, pesq_mos_score = 1\<rparr> \<and>
   get_audio_quality (lab_env None False None (Inr 3)) missing speech lab_world = None \<and>
   get_audio_quality (lab_env None False None (Inr 3)) speech speech
     (lab_world\<lparr>files := [speech \<mapsto> AudioFile (Mono [0, 1]) 44100]\<rparr>) = None \<and>
   fst (run_single_combination (lab_env None False None (Inr 3)) ghost_job lab_world) = None"
proof -
  let ?e = "lab_env None False None (Inl (Raised ''PesqError''))"
  let ?f = "lab_env None False None (Inr 3)"
  let ?w1 = "snd (process_audio_file ?e speech 32 20 5 False 5 lab_world)"
  let ?pf = "final_wav_file ?e speech 32 20 5 False 5"
  have a: "sf_read ?w1 speech = Inr (Mono [0, 1, 2, 3], 16000)"
    by (simp add: lab_process_ok sf_read_def lab_world_def speech_not_processed)
  have b: "sf_read ?w1 ?pf = Inr (Mono [0, 1, 2], 16000)"
    using opus_not_wav [of ?e speech 32 20 5 False 5 ?e speech 32 20 5 False 5]
    by (simp add: lab_process_ok sf_read_def lab_world_def)
  have c: "pesq ?e 16000
      (take (min (length (first_channel (Mono [0, 1, 2, 3]))) (length (first_channel (Mono [0, 1, 2]))))
         (first_channel (Mono [0, 1, 2, 3])))
      (take (min (length (first_channel (Mono [0, 1, 2, 3]))) (length (first_channel (Mono [0, 1, 2]))))
         (first_channel (Mono [0, 1, 2])))
      ''wb'' = Inl (Raised ''PesqError'')"
    by (simp add: lab_env_fields)
  have q: "get_audio_quality ?e speech ?pf ?w1 = Some 1"
    using a b c get_audio_quality_floor_or_none [of ?w1 speech "Mono [0, 1, 2, 3]" ?pf
        "Mono [0, 1, 2]" ?e "Raised ''PesqError''"]
    by blast
  have p: "fst (process_audio_file ?e (original_file (lab_job 5)) (bitrate (lab_job 5))
      (frame_size (lab_job 5)) (complexity (lab_job 5)) (use_fec (lab_job 5))
      (packet_loss_perc (lab_job 5)) lab_world) = Inr (Some ?pf)"
    by (simp add: lab_job_fields lab_process_ok)
  have r: "fst (run_single_combination ?e (lab_job 5) lab_world) =
     Some \<lparr>bitrate = 32, frame_size = 20, complexity = 5, use_fec = False,
           original_file = ''speech.flac'', packet_loss_perc = 5, pesq_mos_score = 1\<rparr>"
    using p q get_audio_quality_floor_or_none [where e = ?e and p = "lab_job 5" and ?w0.0 = lab_world
        and pf = ?pf]
    by (simp add: lab_job_fields name_def speech_def)
  have m: "sf_read lab_world missing = Inl (Raised ''LibsndfileError'')"
    by (simp add: sf_read_def lab_world_def missing_not_speech)
  have n: "get_audio_quality ?f missing speech lab_world = None"
    using m get_audio_quality_floor_or_none [of lab_world missing _ speech _ ?f
        "Raised ''LibsndfileError''"]
    by blast
  have s: "sf_read (lab_world\<lparr>files := [speech \<mapsto> AudioFile (Mono [0, 1]) 44100]\<rparr>) speech =
      Inr (Mono [0, 1], 44100)"
    by (simp add: sf_read_def)
  have t: "get_audio_quality ?f speech speech
      (lab_world\<lparr>files := [speech \<mapsto> AudioFile (Mono [0, 1]) 44100]\<rparr>) = None"
    using s get_audio_quality_floor_or_none [where w = "lab_world\<lparr>files := [speech \<mapsto> AudioFile (Mono [0, 1]) 44100]\<rparr>"
        and orig = speech and proc = speech and e = ?f and d = "Mono [0, 1]" and sr = 44100]
    by simp
  have g: "fst (process_audio_file ?f (original_file ghost_job) (bitrate ghost_job)
      (frame_size ghost_job) (complexity ghost_job) (use_fec ghost_job)
      (packet_loss_perc ghost_job) lab_world) = Inr (Some (final_wav_file ?f missing 8 60 9 True 10))"
    by (simp add: ghost_job_fields lab_process_ok)
  have h: "get_audio_quality ?f (original_file ghost_job) (final_wav_file ?f missing 8 60 9 True 10)
      (snd (process_audio_file ?f (original_file ghost_job) (bitrate ghost_job)
        (frame_size ghost_job) (complexity ghost_job) (use_fec ghost_job)
        (packet_loss_perc ghost_job) lab_world)) = None"
    by (simp add: ghost_job_fields lab_quality_missing)
  have u: "fst (run_single_combination ?f ghost_job lab_world) = None"
    using g h get_audio_quality_floor_or_none [where e = ?f and p = ghost_job and ?w0.0 = lab_world
        and pf = "final_wav_file ?f missing 8 60 9 True 10"]
    by blast
  show ?thesis
    using q r n t u by blast
qed

subsection \<open>The sweep\<close>

lemma collect_results_append:
  "collect_results rs acc = acc @ List.map_filter (\<lambda>r. r) rs"
proof (induction rs acc rule: collect_results.induct)
  case (1 results_list)
  then show ?case by (simp add: List.map_filter_simps)
next
  case (2 jobs results_list)
  then show ?case by (simp add: List.map_filter_simps)
next
  case (3 r jobs results_list)
  then show ?case by (simp add: List.map_filter_simps)
qed

lemma map_filter_of_map:
  "List.map_filter (\<lambda>r. r) (map f xs) = List.map_filter f xs"
  by (induction xs) (simp_all add: List.map_filter_simps split: option.splits)

lemma set_map_filter:
  "set (List.map_filter f xs) = {r. \<exists>x\<in>set xs. f x = Some r}"
  by (induction xs) (auto simp add: List.map_filter_simps split: option.splits)

lemma run_experiment_parallel_map_filter:
  "run_experiment_parallel e seen completed =
     List.map_filter (\<lambda>p. fst (run_single_combination e p (seen p))) completed"
  by (simp add: run_experiment_parallel_def collect_results_append map_filter_of_map)

text \<open>
  C8: the worker returns \<^verbatim>\<open>None\<close> when \<^verbatim>\<open>process_audio_file\<close> raises, when it returns
  \<^verbatim>\<open>None\<close>, and when \<^verbatim>\<open>get_audio_quality\<close> returns \<^verbatim>\<open>None\<close> (or the falsy score 0.0, which
  \<^verbatim>\<open>not score\<close> treats alike); otherwise it returns the sample with the job's
  parameters and the score. For every order in which the jobs complete, the collected
  list is the list of the samples of the jobs whose worker returned one, in that order:
  the jobs that failed are left out, the others are all there, and the loop goes on
  after a failure.
\<close>

theorem sweep_failures_contained:
  "(fst (process_audio_file e (original_file p) (bitrate p) (frame_size p) (complexity p)
           (use_fec p) (packet_loss_perc p) w) = Inl x
    \<longrightarrow> fst (run_single_combination e p w) = None) \<and>
   (fst (process_audio_file e (original_file p) (bitrate p) (frame_size p) (complexity p)
           (use_fec p) (packet_loss_perc p) w) = Inr None
    \<longrightarrow> fst (run_single_combination e p w) = None) \<and>
   (fst (process_audio_file e (original_file p) (bitrate p) (frame_size p) (complexity p)
           (use_fec p) (packet_loss_perc p) w) = Inr (Some pf) \<and>
    (get_audio_quality e (original_file p) pf
       (snd (process_audio_file e (original_file p) (bitrate p) (frame_size p) (complexity p)
               (use_fec p) (packet_loss_perc p) w)) = None \<or>
     get_audio_quality e (original_file p) pf
       (snd (process_audio_file e (original_file p) (bitrate p) (frame_size p) (complexity p)
               (use_fec p) (packet_loss_perc p) w)) = Some 0)
    \<longrightarrow> fst (run_single_combination e p w) = None) \<and>
   (fst (process_audio_file e (original_file p) (bitrate p) (frame_size p) (complexity p)
           (use_fec p) (packet_loss_perc p) w) = Inr (Some pf) \<and>
    get_audio_quality e (original_file p) pf
      (snd (process_audio_file e (original_file p) (bitrate p) (frame_size p) (complexity p)
              (use_fec p) (packet_loss_perc p) w)) = Some score \<and> score \<noteq> 0
    \<longrightarrow> fst (run_single_combination e p w) =
          Some \<lparr>bitrate = bitrate p, frame_size = frame_size p, complexity = complexity p,
                use_fec = use_fec p, original_file = name (original_file p),
                packet_loss_perc = packet_loss_perc p, pesq_mos_score = score\<rparr>) \<and>
   run_experiment_parallel e seen completed =
     List.map_filter (\<lambda>p. fst (run_single_combination e p (seen p))) completed \<and>
   set (run_experiment_parallel e seen completed) =
     {r. \<exists>p\<in>set completed. fst (run_single_combination e p (seen p)) = Some r} \<and>
   length (run_experiment_parallel e seen completed) =
     length (filter (\<lambda>p. fst (run_single_combination e p (seen p)) \<noteq> None) completed)"
proof -
  have s: "set (run_experiment_parallel e seen completed) =
     {r. \<exists>p\<in>set completed. fst (run_single_combination e p (seen p)) = Some r}"
    unfolding run_experiment_parallel_map_filter
    by (rule set_map_filter)
  have l: "length (run_experiment_parallel e seen completed) =
     length (filter (\<lambda>p. fst (run_single_combination e p (seen p)) \<noteq> None) completed)"
    unfolding run_experiment_parallel_map_filter
    by (simp add: List.map_filter_def)
  have a: "fst (run_single_combination e p w) = None"
    if "fst (process_audio_file e (original_file p) (bitrate p) (frame_size p) (complexity p)
           (use_fec p) (packet_loss_perc p) w) = Inr (Some pf)"
      "get_audio_quality e (original_file p) pf
       (snd (process_audio_file e (original_file p) (bitrate p) (frame_size p) (complexity p)
               (use_fec p) (packet_loss_perc p) w)) = None \<or>
       get_audio_quality e (original_file p) pf
       (snd (process_audio_file e (original_file p) (bitrate p) (frame_size p) (complexity p)
               (use_fec p) (packet_loss_perc p) w)) = Some 0"
    using that(2) unfolding run_single_combination_scored [OF that(1)]
    by (auto simp add: Let_def)
  have b: "fst (run_single_combination e p w) =
          Some \<lparr>bitrate = bitrate p, frame_size = frame_size p, complexity = complexity p,
                use_fec = use_fec p, original_file = name (original_file p),
                packet_loss_perc = packet_loss_perc p, pesq_mos_score = score\<rparr>"
    if "fst (process_audio_file e (original_file p) (bitrate p) (frame_size p) (complexity p)
           (use_fec p) (packet_loss_perc p) w) = Inr (Some pf)"
      "get_audio_quality e (original_file p) pf
       (snd (process_audio_file e (original_file p) (bitrate p) (frame_size p) (complexity p)
               (use_fec p) (packet_loss_perc p) w)) = Some score" "score \<noteq> 0"
    using that(2,3) unfolding run_single_combination_scored [OF that(1)]
    by (simp add: Let_def)
  show ?thesis
    using s l a b run_single_combination_raised [of e p w x] run_single_combination_no_file [of e p w]
      run_experiment_parallel_map_filter [of e seen completed]
    by blast
qed

lemma lab_worker_ok:
  "fst (run_single_combination (lab_env None False None (Inr 3)) (lab_job loss) lab_world) =
     Some \<lparr>bitrate = 32, frame_size = 20, complexity = 5, use_fec = False,
           original_file = ''speech.flac'', packet_loss_perc = loss, pesq_mos_score = 3\<rparr>"
proof -
  let ?e = "lab_env None False None (Inr 3)"
  have p: "fst (process_audio_file ?e (original_file (lab_job loss)) (bitrate (lab_job loss))
      (frame_size (lab_job loss)) (complexity (lab_job loss)) (use_fec (lab_job loss))
      (packet_loss_perc (lab_job loss)) lab_world) =
      Inr (Some (final_wav_file ?e speech 32 20 5 False loss))"
    by (simp add: lab_job_fields lab_process_ok)
  have "fst (run_single_combination ?e (lab_job loss) lab_world) =
     Some \<lparr>bitrate = 32, frame_size = 20, complexity = 5, use_fec = False,
           original_file = name speech, packet_loss_perc = loss, pesq_mos_score = 3\<rparr>"
    unfolding run_single_combination_scored [OF p]
    by (simp add: Let_def lab_job_fields lab_quality)
  then show ?thesis
    by (simp add: name_def speech_def)
qed

lemma lab_worker_ghost:
  "fst (run_single_combination (lab_env None False None (Inr 3)) ghost_job lab_world) = None"
proof -
  let ?e = "lab_env None False None (Inr 3)"
  have p: "fst (process_audio_file ?e (original_file ghost_job) (bitrate ghost_job)
      (frame_size ghost_job) (complexity ghost_job) (use_fec ghost_job)
      (packet_loss_perc ghost_job) lab_world) =
      Inr (Some (final_wav_file ?e missing 8 60 9 True 10))"
    by (simp add: ghost_job_fields lab_process_ok)
  show ?thesis
    unfolding run_single_combination_scored [OF p]
    by (simp add: Let_def ghost_job_fields lab_quality_missing)
qed

theorem sweep_failures_contained_witness:
  "fst (run_single_combination (lab_env (Some (Raised ''FileNotFoundError'')) False None (Inr 3))
          (lab_job 5) lab_world) = None \<and>
   fst (run_single_combination (lab_env (Some CalledProcessError) False None (Inr 3))
          (lab_job 5) lab_world) = None \<and>
   fst (run_single_combination (lab_env None False (Some CalledProcessError) (Inr 3))
          (lab_job 5) lab_world) = None \<and>
   fst (run_single_combination (lab_env None False None (Inr 3)) ghost_job lab_world) = None \<and>
   fst (run_single_combination (lab_env None False None (Inr 0)) (lab_job 5) lab_world) = None \<and>
   fst (run_single_combination (lab_env None False None (Inr 3)) (lab_job 5) lab_world) =
     Some \<lparr>bitrate = 32, frame_size = 20, complexity = 5, use_fec = False,
           original_file = ''speech.flac'', packet_loss_perc = 5, pesq_mos_score = 3\<rparr> \<and>
   run_experiment_parallel (lab_env None False None (Inr 3)) (\<lambda>p. lab_world)
       [ghost_job, lab_job 5, ghost_job, lab_job 7] =
     [\<lparr>bitrate = 32, frame_size = 20, complexity = 5, use_fec = False,
       original_file = ''speech.flac'', packet_loss_perc = 5, pesq_mos_score = 3\<rparr>,
      \<lparr>bitrate = 32, frame_size = 20, complexity = 5, use_fec = False,
       original_file = ''speech.flac'', packet_loss_perc = 7, pesq_mos_score = 3\<rparr>]"
proof -
  let ?ok = "lab_env None False None (Inr 3)"
  let ?zero = "lab_env None False None (Inr 0)"
  let ?nf = "lab_env (Some (Raised ''FileNotFoundError'')) False None (Inr 3)"
  let ?ef = "lab_env (Some CalledProcessError) False None (Inr 3)"
  let ?df = "lab_env None False (Some CalledProcessError) (Inr 3)"
  have 1: "fst (run_single_combination ?nf (lab_job 5) lab_world) = None"
  proof -
    have "fst (process_audio_file ?nf (original_file (lab_job 5)) (bitrate (lab_job 5))
        (frame_size (lab_job 5)) (complexity (lab_job 5)) (use_fec (lab_job 5))
        (packet_loss_perc (lab_job 5)) lab_world) = Inl (Raised ''FileNotFoundError'')"
      by (simp add: lab_process_encode_raised)
    then show ?thesis
      using sweep_failures_contained [of ?nf "lab_job 5" lab_world "Raised ''FileNotFoundError''"]
      by blast
  qed
  have 2: "fst (run_single_combination ?ef (lab_job 5) lab_world) = None"
  proof -
    have "fst (process_audio_file ?ef (original_file (lab_job 5)) (bitrate (lab_job 5))
        (frame_size (lab_job 5)) (complexity (lab_job 5)) (use_fec (lab_job 5))
        (packet_loss_perc (lab_job 5)) lab_world) = Inr None"
      by (simp add: lab_process_encode_failed)
    then show ?thesis
      using sweep_failures_contained [of ?ef "lab_job 5" lab_world]
      by blast
  qed
  have 3: "fst (run_single_combination ?df (lab_job 5) lab_world) = None"
  proof -
    have "fst (process_audio_file ?df (original_file (lab_job 5)) (bitrate (lab_job 5))
        (frame_size (lab_job 5)) (complexity (lab_job 5)) (use_fec (lab_job 5))
        (packet_loss_perc (lab_job 5)) lab_world) = Inr None"
      by (simp add: lab_process_decode_failed)
    then show ?thesis
      using sweep_failures_contained [of ?df "lab_job 5" lab_world]
      by blast
  qed
  have 4: "fst (run_single_combination ?ok ghost_job lab_world) = None"
  proof -
    have "fst (process_audio_file ?ok (original_file ghost_job) (bitrate ghost_job)
        (frame_size ghost_job) (complexity ghost_job) (use_fec ghost_job)
        (packet_loss_perc ghost_job) lab_world) =
        Inr (Some (final_wav_file ?ok missing 8 60 9 True 10))"
      by (simp add: ghost_job_fields lab_process_ok)
    moreover have "get_audio_quality ?ok (original_file ghost_job)
        (final_wav_file ?ok missing 8 60 9 True 10)
        (snd (process_audio_file ?ok (original_file ghost_job) (bitrate ghost_job)
          (frame_size ghost_job) (complexity ghost_job) (use_fec ghost_job)
          (packet_loss_perc ghost_job) lab_world)) = None"
      by (simp add: ghost_job_fields lab_quality_missing)
    ultimately show ?thesis
      using sweep_failures_contained [where e = ?ok and p = ghost_job and w = lab_world
          and pf = "final_wav_file ?ok missing 8 60 9 True 10"]
      by blast
  qed
  have 5: "fst (run_single_combination ?zero (lab_job 5) lab_world) = None"
  proof -
    have "fst (process_audio_file ?zero (original_file (lab_job 5)) (bitrate (lab_job 5))
        (frame_size (lab_job 5)) (complexity (lab_job 5)) (use_fec (lab_job 5))
        (packet_loss_perc (lab_job 5)) lab_world) =
        Inr (Some (final_wav_file ?zero speech 32 20 5 False 5))"
      by (simp add: lab_job_fields lab_process_ok)
    moreover have "get_audio_quality ?zero (original_file (lab_job 5))
        (final_wav_file ?zero speech 32 20 5 False 5)
        (snd (process_audio_file ?zero (original_file (lab_job 5)) (bitrate (lab_job 5))
          (frame_size (lab_job 5)) (complexity (lab_job 5)) (use_fec (lab_job 5))
          (packet_loss_perc (lab_job 5)) lab_world)) = Some 0"
      by (simp add: lab_job_fields lab_quality)
    ultimately show ?thesis
      using sweep_failures_contained [where e = ?zero and p = "lab_job 5" and w = lab_world
          and pf = "final_wav_file ?zero speech 32 20 5 False 5"]
      by blast
  qed
  have 6: "fst (run_single_combination ?ok (lab_job 5) lab_world) =
     Some \<lparr>bitrate = 32, frame_size = 20, complexity = 5, use_fec = False,
           original_file = ''speech.flac'', packet_loss_perc = 5, pesq_mos_score = 3\<rparr>"
  proof -
    have "fst (process_audio_file ?ok (original_file (lab_job 5)) (bitrate (lab_job 5))
        (frame_size (lab_job 5)) (complexity (lab_job 5)) (use_fec (lab_job 5))
        (packet_loss_perc (lab_job 5)) lab_world) =
        Inr (Some (final_wav_file ?ok speech 32 20 5 False 5))"
      by (simp add: lab_job_fields lab_process_ok)
    moreover have "get_audio_quality ?ok (original_file (lab_job 5))
        (final_wav_file ?ok speech 32 20 5 False 5)
        (snd (process_audio_file ?ok (original_file (lab_job 5)) (bitrate (lab_job 5))
          (frame_size (lab_job 5)) (complexity (lab_job 5)) (use_fec (lab_job 5))
          (packet_loss_perc (lab_job 5)) lab_world)) = Some 3"
      by (simp add: lab_job_fields lab_quality)
    moreover have "(3::real) \<noteq> 0" by simp
    ultimately have "fst (run_single_combination ?ok (lab_job 5) lab_world) =
          Some \<lparr>bitrate = bitrate (lab_job 5), frame_size = frame_size (lab_job 5),
                complexity = complexity (lab_job 5), use_fec = use_fec (lab_job 5),
                original_file = name (original_file (lab_job 5)),
                packet_loss_perc = packet_loss_perc (lab_job 5), pesq_mos_score = 3\<rparr>"
      using sweep_failures_contained [where e = ?ok and p = "lab_job 5" and w = lab_world
          and pf = "final_wav_file ?ok speech 32 20 5 False 5" and score = 3]
      by blast
    then show ?thesis
      by (simp add: lab_job_fields name_def speech_def)
  qed
  have 7: "run_experiment_parallel ?ok (\<lambda>p. lab_world) [ghost_job, lab_job 5, ghost_job, lab_job 7] =
     List.map_filter (\<lambda>p. fst (run_single_combination ?ok p lab_world))
       [ghost_job, lab_job 5, ghost_job, lab_job 7]"
    using sweep_failures_contained [where e = ?ok and seen = "\<lambda>p. lab_world"
        and completed = "[ghost_job, lab_job 5, ghost_job, lab_job 7]"]
    by blast
  have 8: "run_experiment_parallel ?ok (\<lambda>p. lab_world) [ghost_job, lab_job 5, ghost_job, lab_job 7] =
     [\<lparr>bitrate = 32, frame_size = 20, complexity = 5, use_fec = False,
       original_file = ''speech.flac'', packet_loss_perc = 5, pesq_mos_score = 3\<rparr>,
      \<lparr>bitrate = 32, frame_size = 20, complexity = 5, use_fec = False,
       original_file = ''speech.flac'', packet_loss_perc = 7, pesq_mos_score = 3\<rparr>]"
    unfolding 7 by (simp add: List.map_filter_simps lab_worker_ok lab_worker_ghost)
  show ?thesis
    using 1 2 3 4 5 6 8 by blast
qed

subsection \<open>The evaluation harness\<close>

text \<open>
  Once the source audio is read, resampled and written to the temporary input, what
  \<^verbatim>\<open>run_audio_simulation\<close> does is decided by the dispatch and the pipeline.
\<close>

lemma run_audio_simulation_prepared:
  assumes "sf_read w audio_path = Inr (data, sr)"
    and "resample_to_16khz e (first_channel data) sr = Inr (data_res, sr_res)"
    and "sf_write_error e (temp_input_path e (clock e (Suc (ticks w)))) = None"
  shows "run_audio_simulation e audio_path loss ct model w =
     (let temp = temp_input_path e (clock e (Suc (ticks w)));
          w2 = w\<lparr>ticks := Suc (Suc (ticks w)),
                 files := (files w)(temp \<mapsto> AudioFile (Mono data_res) sr_res)\<rparr>
      in case select_controller ct loss model of
           Inl x \<Rightarrow> (Inl x, w2)
         | Inr None \<Rightarrow> (Inl (TypeError ''NoneType object is not subscriptable''), w2)
         | Inr (Some cfg) \<Rightarrow>
             (case process_audio_file e temp (bitrate cfg) (frame_size cfg) (complexity cfg)
                     (use_fec cfg) loss w2 of
                (Inl x, w3) \<Rightarrow> (Inl x, w3)
              | (Inr None, w3) \<Rightarrow> (Inr None, unlink temp w3)
              | (Inr (Some pf), w3) \<Rightarrow>
                  (Inr (Some \<lparr>mos = get_audio_quality e temp pf w3, config = cfg,
                               processing_time_s = clock e (ticks w3) - clock e (ticks w),
                               processed_file = pf\<rparr>),
                   unlink temp (w3\<lparr>ticks := Suc (ticks w3)\<rparr>))))"
proof -
  have r: "sf_read (w\<lparr>ticks := Suc (ticks w)\<rparr>) audio_path = Inr (data, sr)"
    using assms(1) by (simp add: sf_read_def)
  show ?thesis
    using assms(2,3)
    by (simp add: run_audio_simulation_def time_time_def r sf_write_def Let_def
        cong: sum.case_cong option.case_cong prod.case_cong)
qed

lemma run_audio_simulation_unreadable:
  "sf_read w audio_path = Inl x \<Longrightarrow>
   fst (run_audio_simulation e audio_path loss ct model w) = Inl x"
proof -
  assume a: "sf_read w audio_path = Inl x"
  have "sf_read (w\<lparr>ticks := Suc (ticks w)\<rparr>) audio_path = Inl x"
    using a by (simp add: sf_read_def)
  then show ?thesis
    by (simp add: run_audio_simulation_def time_time_def)
qed

text \<open>The commands one call of \<^verbatim>\<open>process_audio_file\<close> runs.\<close>

lemma process_audio_file_trace:
  "trace (snd (process_audio_file e inp br fs cx fec loss w)) =
     trace w @
       Opusenc br fs cx (if fec then [''--expect-loss'', ''5''] else []) inp
         (intermediate_opus_file e inp br fs cx fec loss) #
       (if fst (subprocess_run e
                  (Opusenc br fs cx (if fec then [''--expect-loss'', ''5''] else []) inp
                     (intermediate_opus_file e inp br fs cx fec loss)) (files w)) = Inr ()
        then [Opusdec 16000 loss (intermediate_opus_file e inp br fs cx fec loss)
                (final_wav_file e inp br fs cx fec loss)]
        else [])"
proof -
  let ?enc = "Opusenc br fs cx (if fec then [''--expect-loss'', ''5''] else []) inp
      (intermediate_opus_file e inp br fs cx fec loss)"
  let ?dec = "Opusdec 16000 loss (intermediate_opus_file e inp br fs cx fec loss)
      (final_wav_file e inp br fs cx fec loss)"
  obtain r1 fs1 where a: "subprocess_run e ?enc (files w) = (r1, fs1)"
    by (metis prod.collapse)
  show ?thesis
  proof (cases r1)
    case (Inl x)
    show ?thesis
    proof (cases "x = CalledProcessError")
      case True
      then show ?thesis
        using a Inl by (simp add: process_audio_file_encode_failed)
    next
      case False
      then show ?thesis
        using a Inl by (simp add: process_audio_file_encode_raised)
    qed
  next
    case (Inr u)
    obtain r2 fs2 where b: "subprocess_run e ?dec fs1 = (r2, fs2)"
      by (metis prod.collapse)
    have a': "subprocess_run e ?enc (files w) = (Inr (), fs1)"
      using a Inr by simp
    show ?thesis
      unfolding process_audio_file_encoded [OF a' b]
      by (simp add: a' Let_def split: sum.splits)
  qed
qed

lemma select_controller_known:
  "(select_controller ct loss model = Inl (ValueError ''Unknown controller type'')) =
     (ct \<notin> {''static'', ''heuristic'', ''ml_adaptive'', ''hybrid''})"
  "(\<exists>d. select_controller ct loss model = Inr d) =
     (ct \<in> {''static'', ''heuristic'', ''ml_adaptive'', ''hybrid''})"
  by (auto simp add: select_controller_def)

lemma select_controller_values:
  "select_controller ''static'' loss model = Inr (Some (static_controller loss))"
  "select_controller ''heuristic'' loss model = Inr (Some (heuristic_controller loss))"
  "select_controller ''ml_adaptive'' loss model = Inr (ml_controller loss model)"
  "select_controller ''hybrid'' loss model = Inr (hybrid_controller loss model)"
  by (simp_all add: select_controller_def)

lemma run_audio_simulation_trace:
  assumes "sf_read w audio_path = Inr (data, sr)"
    and "resample_to_16khz e (first_channel data) sr = Inr (data_res, sr_res)"
    and "sf_write_error e (temp_input_path e (clock e (Suc (ticks w)))) = None"
  shows "trace (snd (run_audio_simulation e audio_path loss ct model w)) =
     (case select_controller ct loss model of
        Inr (Some cfg) \<Rightarrow>
          trace (snd (process_audio_file e (temp_input_path e (clock e (Suc (ticks w))))
                        (bitrate cfg) (frame_size cfg) (complexity cfg) (use_fec cfg) loss
                        (w\<lparr>ticks := Suc (Suc (ticks w)),
                           files := (files w)(temp_input_path e (clock e (Suc (ticks w)))
                                               \<mapsto> AudioFile (Mono data_res) sr_res)\<rparr>)))
      | _ \<Rightarrow> trace w)"
proof (cases "select_controller ct loss model")
  case (Inl x)
  then show ?thesis
    unfolding run_audio_simulation_prepared [OF assms] by (simp add: Let_def)
next
  case (Inr d)
  show ?thesis
  proof (cases d)
    case None
    then show ?thesis
      using Inr unfolding run_audio_simulation_prepared [OF assms] by (simp add: Let_def)
  next
    case (Some cfg)
    obtain r3 w3 where p: "process_audio_file e (temp_input_path e (clock e (Suc (ticks w))))
        (bitrate cfg) (frame_size cfg) (complexity cfg) (use_fec cfg) loss
        (w\<lparr>ticks := Suc (Suc (ticks w)),
           files := (files w)(temp_input_path e (clock e (Suc (ticks w)))
                               \<mapsto> AudioFile (Mono data_res) sr_res)\<rparr>) = (r3, w3)"
      by (metis prod.collapse)
    show ?thesis
      using Inr Some p unfolding run_audio_simulation_prepared [OF assms]
      by (simp add: Let_def unlink_def split: sum.splits option.splits)
  qed
qed

lemma lab_prepared:
  "sf_read lab_world speech = Inr (Mono [0, 1, 2, 3], 16000)"
  "resample_to_16khz (lab_env enc ew dec pq) (first_channel (Mono [0, 1, 2, 3])) 16000 =
     Inr ([0, 1, 2, 3], 16000)"
  "sf_write_error (lab_env enc ew dec pq)
     (temp_input_path (lab_env enc ew dec pq) (clock (lab_env enc ew dec pq) (Suc (ticks lab_world)))) =
     None"
  "clock (lab_env enc ew dec pq) (Suc (ticks lab_world)) = 1"
  by (simp_all add: sf_read_def lab_world_def resample_to_16khz_def first_channel_def
      lab_env_fields)

text \<open>
  The claim C9 as stated fails. With a known controller the function raises when the
  source audio cannot be read; with an unknown controller and unreadable audio the
  exception is that of \<^verbatim>\<open>sf.read\<close>, raised before the dispatch is reached; and with
  \<^verbatim>\<open>'ml_adaptive'\<close> and readable audio it raises \<^verbatim>\<open>TypeError\<close> after the dispatch when
  \<^verbatim>\<open>ml_controller\<close> returns \<^verbatim>\<open>None\<close>.
\<close>

theorem run_audio_simulation_raises_counterexample:
  "fst (run_audio_simulation (lab_env None False None (Inr 3)) speech 5 ''static'' None
          empty_world) = Inl (Raised ''LibsndfileError'') \<and>
   fst (run_audio_simulation (lab_env None False None (Inr 3)) speech 5 ''bogus'' None
          empty_world) = Inl (Raised ''LibsndfileError'') \<and>
   fst (run_audio_simulation (lab_env None False None (Inr 3)) speech 1 ''ml_adaptive''
          (Some far_below) lab_world) = Inl (TypeError ''NoneType object is not subscriptable'')"
proof -
  have u: "sf_read empty_world speech = Inl (Raised ''LibsndfileError'')"
    by (simp add: sf_read_def empty_world_def)
  have n: "ml_controller 1 (Some far_below) = None"
    by (rule ml_controller_below_sentinel) (simp add: pred_of_far_below)
  have "fst (run_audio_simulation (lab_env None False None (Inr 3)) speech 1 ''ml_adaptive''
          (Some far_below) lab_world) = Inl (TypeError ''NoneType object is not subscriptable'')"
    unfolding run_audio_simulation_prepared [OF lab_prepared(1,2,3)]
    by (simp add: Let_def select_controller_values n)
  then show ?thesis
    using u by (simp add: run_audio_simulation_unreadable)
qed

text \<open>
  C9, as amended: when the source audio is read, resampled and written to the temporary
  input, \<^verbatim>\<open>run_audio_simulation\<close> raises \<^verbatim>\<open>ValueError('Unknown controller type')\<close> without
  having run a codec command if and only if the controller type is none of
  \<^verbatim>\<open>'static'\<close>, \<^verbatim>\<open>'heuristic'\<close>, \<^verbatim>\<open>'ml_adaptive'\<close>, \<^verbatim>\<open>'hybrid'\<close>; when the selected controller
  returns a configuration and \<^verbatim>\<open>process_audio_file\<close> returns \<^verbatim>\<open>None\<close>, it returns \<^verbatim>\<open>None\<close>;
  when \<^verbatim>\<open>process_audio_file\<close> returns a file and \<^verbatim>\<open>get_audio_quality\<close> returns \<^verbatim>\<open>None\<close>, it
  returns metrics whose \<^verbatim>\<open>mos\<close> is \<^verbatim>\<open>None\<close>.
\<close>

theorem run_audio_simulation_outcomes:
  assumes "sf_read w audio_path = Inr (data, sr)"
    and "resample_to_16khz e (first_channel data) sr = Inr (data_res, sr_res)"
    and "sf_write_error e (temp_input_path e (clock e (Suc (ticks w)))) = None"
  shows
    "let temp = temp_input_path e (clock e (Suc (ticks w)));
         w2 = w\<lparr>ticks := Suc (Suc (ticks w)),
                files := (files w)(temp \<mapsto> AudioFile (Mono data_res) sr_res)\<rparr>;
         r = run_audio_simulation e audio_path loss ct model w
     in ((fst r = Inl (ValueError ''Unknown controller type'') \<and> trace (snd r) = trace w) =
           (ct \<notin> {''static'', ''heuristic'', ''ml_adaptive'', ''hybrid''})) \<and>
        (select_controller ct loss model = Inr (Some cfg) \<and>
         fst (process_audio_file e temp (bitrate cfg) (frame_size cfg) (complexity cfg)
                (use_fec cfg) loss w2) = Inr None
         \<longrightarrow> fst r = Inr None) \<and>
        (select_controller ct loss model = Inr (Some cfg) \<and>
         fst (process_audio_file e temp (bitrate cfg) (frame_size cfg) (complexity cfg)
                (use_fec cfg) loss w2) = Inr (Some pf) \<and>
         get_audio_quality e temp pf
           (snd (process_audio_file e temp (bitrate cfg) (frame_size cfg) (complexity cfg)
                   (use_fec cfg) loss w2)) = None
         \<longrightarrow> (\<exists>m. fst r = Inr (Some m) \<and> mos m = None \<and> config m = cfg \<and>
                  processed_file m = pf))"
proof -
  let ?temp = "temp_input_path e (clock e (Suc (ticks w)))"
  let ?w2 = "w\<lparr>ticks := Suc (Suc (ticks w)),
               files := (files w)(?temp \<mapsto> AudioFile (Mono data_res) sr_res)\<rparr>"
  let ?r = "run_audio_simulation e audio_path loss ct model w"
  let ?p = "\<lambda>c. process_audio_file e ?temp (bitrate c) (frame_size c) (complexity c)
                (use_fec c) loss ?w2"
  note prep = run_audio_simulation_prepared [OF assms, of loss ct model]
  note tr = run_audio_simulation_trace [OF assms, of loss ct model]
  have a: "(fst ?r = Inl (ValueError ''Unknown controller type'') \<and> trace (snd ?r) = trace w) =
           (ct \<notin> {''static'', ''heuristic'', ''ml_adaptive'', ''hybrid''})"
  proof
    assume h: "fst ?r = Inl (ValueError ''Unknown controller type'') \<and> trace (snd ?r) = trace w"
    show "ct \<notin> {''static'', ''heuristic'', ''ml_adaptive'', ''hybrid''}"
    proof (cases "select_controller ct loss model")
      case (Inl x)
      then have "x = ValueError ''Unknown controller type''"
        by (simp add: select_controller_def split: if_splits)
      then show ?thesis
        using Inl select_controller_known(1) [of ct loss model] by simp
    next
      case (Inr d)
      show ?thesis
      proof (cases d)
        case None
        then have "fst ?r = Inl (TypeError ''NoneType object is not subscriptable'')"
          using Inr unfolding prep by (simp add: Let_def)
        then show ?thesis using h by simp
      next
        case (Some c)
        have "trace (snd ?r) = trace (snd (?p c))"
          using Inr Some unfolding tr by simp
        then have "trace (snd ?r) \<noteq> trace w"
          by (simp add: process_audio_file_trace)
        then show ?thesis using h by simp
      qed
    qed
  next
    assume "ct \<notin> {''static'', ''heuristic'', ''ml_adaptive'', ''hybrid''}"
    then have s: "select_controller ct loss model = Inl (ValueError ''Unknown controller type'')"
      using select_controller_known(1) [of ct loss model] by simp
    show "fst ?r = Inl (ValueError ''Unknown controller type'') \<and> trace (snd ?r) = trace w"
      unfolding prep using s by (simp add: Let_def)
  qed
  have b: "fst ?r = Inr None"
    if s: "select_controller ct loss model = Inr (Some cfg)" and q: "fst (?p cfg) = Inr None"
  proof -
    obtain w3 where "?p cfg = (Inr None, w3)"
      using q by (metis prod.collapse)
    then show ?thesis
      unfolding prep using s by (simp add: Let_def)
  qed
  have c: "\<exists>m. fst ?r = Inr (Some m) \<and> mos m = None \<and> config m = cfg \<and> processed_file m = pf"
    if s: "select_controller ct loss model = Inr (Some cfg)"
      and q: "fst (?p cfg) = Inr (Some pf)"
      and g: "get_audio_quality e ?temp pf (snd (?p cfg)) = None"
  proof -
    obtain w3 where p: "?p cfg = (Inr (Some pf), w3)"
      using q by (metis prod.collapse)
    then have "get_audio_quality e ?temp pf w3 = None"
      using g by simp
    then show ?thesis
      unfolding prep using s p by (simp add: Let_def)
  qed
  show ?thesis
    unfolding Let_def using a b c by blast
qed

lemma corrupt_prepared:
  "resample_to_16khz corrupt_env (first_channel (Mono [0, 1, 2, 3])) 16000 =
     Inr ([0, 1, 2, 3], 16000)"
  "sf_write_error corrupt_env
     (temp_input_path corrupt_env (clock corrupt_env (Suc (ticks lab_world)))) = None"
  by (simp_all add: resample_to_16khz_def first_channel_def corrupt_env_def lab_env_fields)

lemma corrupt_process:
  "fst (process_audio_file corrupt_env inp br fs cx fec loss w) =
     Inr (Some (final_wav_file corrupt_env inp br fs cx fec loss))"
  "files (snd (process_audio_file corrupt_env inp br fs cx fec loss w))
     (final_wav_file corrupt_env inp br fs cx fec loss) = Some Blob"
proof -
  have a: "subprocess_run corrupt_env
      (Opusenc br fs cx (if fec then [''--expect-loss'', ''5''] else []) inp
         (intermediate_opus_file corrupt_env inp br fs cx fec loss)) (files w) =
      (Inr (), (files w)(intermediate_opus_file corrupt_env inp br fs cx fec loss \<mapsto> Blob))"
    by (simp add: corrupt_env_def)
  have b: "subprocess_run corrupt_env
      (Opusdec 16000 loss (intermediate_opus_file corrupt_env inp br fs cx fec loss)
         (final_wav_file corrupt_env inp br fs cx fec loss))
      ((files w)(intermediate_opus_file corrupt_env inp br fs cx fec loss \<mapsto> Blob)) =
      (Inr (), (files w)(intermediate_opus_file corrupt_env inp br fs cx fec loss \<mapsto> Blob,
                         final_wav_file corrupt_env inp br fs cx fec loss \<mapsto> Blob))"
    by (simp add: corrupt_env_def)
  show "fst (process_audio_file corrupt_env inp br fs cx fec loss w) =
     Inr (Some (final_wav_file corrupt_env inp br fs cx fec loss))"
    unfolding process_audio_file_encoded [OF a b] by (simp add: Let_def)
  show "files (snd (process_audio_file corrupt_env inp br fs cx fec loss w))
     (final_wav_file corrupt_env inp br fs cx fec loss) = Some Blob"
    unfolding process_audio_file_encoded [OF a b]
    using opus_not_wav [of corrupt_env inp br fs cx fec loss corrupt_env inp br fs cx fec loss]
    by (simp add: Let_def)
qed

lemma static_fields:
  "bitrate (static_controller loss) = 32" "frame_size (static_controller loss) = 20"
  "complexity (static_controller loss) = 5" "use_fec (static_controller loss) = False"
  by (simp_all add: static_controller_def)

theorem run_audio_simulation_outcomes_witness:
  "fst (run_audio_simulation (lab_env None False None (Inr 3)) speech 5 ''bogus'' None lab_world) =
     Inl (ValueError ''Unknown controller type'') \<and>
   trace (snd (run_audio_simulation (lab_env None False None (Inr 3)) speech 5 ''bogus'' None
                 lab_world)) = trace lab_world \<and>
   fst (run_audio_simulation (lab_env (Some CalledProcessError) False None (Inr 3)) speech 5
          ''static'' None lab_world) = Inr None \<and>
   (\<exists>m. fst (run_audio_simulation corrupt_env speech 5 ''static'' None lab_world) = Inr (Some m) \<and>
        mos m = None \<and>
        config m = \<lparr>bitrate = 32, frame_size = 20, complexity = 5, use_fec = False\<rparr>)"
proof -
  let ?ok = "lab_env None False None (Inr 3)"
  let ?ef = "lab_env (Some CalledProcessError) False None (Inr 3)"
  have k: "''bogus'' \<notin> {''static'', ''heuristic'', ''ml_adaptive'', ''hybrid''}"
    by simp
  note t1 = run_audio_simulation_outcomes [OF lab_prepared(1) lab_prepared(2,3) [of None False None "Inr 3"],
      where loss = 5 and ct = "''bogus''" and model = None, unfolded Let_def]
  have "(fst (run_audio_simulation ?ok speech 5 ''bogus'' None lab_world) =
          Inl (ValueError ''Unknown controller type'') \<and>
         trace (snd (run_audio_simulation ?ok speech 5 ''bogus'' None lab_world)) = trace lab_world) =
        (''bogus'' \<notin> {''static'', ''heuristic'', ''ml_adaptive'', ''hybrid''})"
    by (rule t1 [THEN conjunct1])
  then have 1: "fst (run_audio_simulation ?ok speech 5 ''bogus'' None lab_world) =
        Inl (ValueError ''Unknown controller type'') \<and>
      trace (snd (run_audio_simulation ?ok speech 5 ''bogus'' None lab_world)) = trace lab_world"
    using k by simp
  have s: "\<And>m. select_controller ''static'' 5 m = Inr (Some (static_controller 5))"
    by (simp add: select_controller_values)
  note t2 = run_audio_simulation_outcomes [OF lab_prepared(1)
      lab_prepared(2,3) [of "Some CalledProcessError" False None "Inr 3"],
      where loss = 5 and ct = "''static''" and model = None and cfg = "static_controller 5",
      unfolded Let_def]
  have q: "fst (process_audio_file ?ef (temp_input_path ?ef (clock ?ef (Suc (ticks lab_world))))
      (bitrate (static_controller 5)) (frame_size (static_controller 5))
      (complexity (static_controller 5)) (use_fec (static_controller 5)) 5
      (lab_world\<lparr>ticks := Suc (Suc (ticks lab_world)),
         files := (files lab_world)(temp_input_path ?ef (clock ?ef (Suc (ticks lab_world)))
                    \<mapsto> AudioFile (Mono [0, 1, 2, 3]) 16000)\<rparr>)) = Inr None"
    by (simp add: lab_process_encode_failed)
  have 2: "fst (run_audio_simulation ?ef speech 5 ''static'' None lab_world) = Inr None"
    by (rule t2 [THEN conjunct2, THEN conjunct1, THEN mp, OF conjI [OF s q]])
  let ?t = "temp_input_path corrupt_env (clock corrupt_env (Suc (ticks lab_world)))"
  let ?w2 = "lab_world\<lparr>ticks := Suc (Suc (ticks lab_world)),
         files := (files lab_world)(?t \<mapsto> AudioFile (Mono [0, 1, 2, 3]) 16000)\<rparr>"
  let ?pf = "final_wav_file corrupt_env ?t 32 20 5 False 5"
  have p: "fst (process_audio_file corrupt_env ?t (bitrate (static_controller 5))
      (frame_size (static_controller 5)) (complexity (static_controller 5))
      (use_fec (static_controller 5)) 5 ?w2) = Inr (Some ?pf)"
    by (simp add: static_fields corrupt_process)
  have "sf_read (snd (process_audio_file corrupt_env ?t 32 20 5 False 5 ?w2)) ?pf =
      Inl (Raised ''LibsndfileError'')"
    by (simp add: sf_read_def corrupt_process)
  then have "get_audio_quality corrupt_env ?t ?pf
      (snd (process_audio_file corrupt_env ?t 32 20 5 False 5 ?w2)) = None"
    by (rule get_audio_quality_unreadable)
  then have g: "get_audio_quality corrupt_env ?t ?pf
      (snd (process_audio_file corrupt_env ?t (bitrate (static_controller 5))
        (frame_size (static_controller 5)) (complexity (static_controller 5))
        (use_fec (static_controller 5)) 5 ?w2)) = None"
    by (simp add: static_fields)
  note t3 = run_audio_simulation_outcomes [OF lab_prepared(1) corrupt_prepared,
      where loss = 5 and ct = "''static''" and model = None and cfg = "static_controller 5"
        and pf = ?pf, unfolded Let_def]
  have "\<exists>m. fst (run_audio_simulation corrupt_env speech 5 ''static'' None lab_world) = Inr (Some m) \<and>
        mos m = None \<and> config m = static_controller 5 \<and> processed_file m = ?pf"
    by (rule t3 [THEN conjunct2, THEN conjunct2, THEN mp, OF conjI [OF s conjI [OF p g]]])
  then obtain m where m: "fst (run_audio_simulation corrupt_env speech 5 ''static'' None lab_world) =
      Inr (Some m)" "mos m = None" "config m = static_controller 5"
    by (elim exE conjE)
  have "config m = \<lparr>bitrate = 32, frame_size = 20, complexity = 5, use_fec = False\<rparr>"
    using m(3) by (simp add: static_controller_def)
  with m(1,2) have 3: "\<exists>m. fst (run_audio_simulation corrupt_env speech 5 ''static'' None lab_world) =
        Inr (Some m) \<and> mos m = None \<and>
        config m = \<lparr>bitrate = 32, frame_size = 20, complexity = 5, use_fec = False\<rparr>"
    by (intro exI [of _ m] conjI)
  show ?thesis
    by (intro conjI 1 [THEN conjunct1] 1 [THEN conjunct2] 2 3)
qed

lemma lab_encoder_ok:
  "fst (subprocess_run (lab_env None ew dec pq) (Opusenc br fs cx flags inp out) files0) = Inr ()"
  by (simp add: lab_env_def lab_run_def)

lemma heuristic_fields:
  "frame_size (heuristic_controller loss) = 20" "complexity (heuristic_controller loss) = 5"
  "use_fec (heuristic_controller loss) = False"
  by (simp_all add: heuristic_controller_def)

text \<open>
  The claim C5 as stated fails: nothing clamps the loss. With \<^verbatim>\<open>packet_loss_perc\<close> 150 the
  decoder is run with packet loss 150, and with -5 with packet loss -5.
\<close>

theorem run_audio_simulation_unclamped_counterexample:
  "trace (snd (run_audio_simulation (lab_env None False None (Inr 3)) speech 150 ''static'' None
                 lab_world)) =
     [Opusenc 32 20 5 [] (temp_input_path (lab_env None False None (Inr 3)) 1)
        (intermediate_opus_file (lab_env None False None (Inr 3))
           (temp_input_path (lab_env None False None (Inr 3)) 1) 32 20 5 False 150),
      Opusdec 16000 150
        (intermediate_opus_file (lab_env None False None (Inr 3))
           (temp_input_path (lab_env None False None (Inr 3)) 1) 32 20 5 False 150)
        (final_wav_file (lab_env None False None (Inr 3))
           (temp_input_path (lab_env None False None (Inr 3)) 1) 32 20 5 False 150)] \<and>
   trace (snd (run_audio_simulation (lab_env None False None (Inr 3)) speech (- 5) ''heuristic'' None
                 lab_world)) =
     [Opusenc 48 20 5 [] (temp_input_path (lab_env None False None (Inr 3)) 1)
        (intermediate_opus_file (lab_env None False None (Inr 3))
           (temp_input_path (lab_env None False None (Inr 3)) 1) 48 20 5 False (- 5)),
      Opusdec 16000 (- 5)
        (intermediate_opus_file (lab_env None False None (Inr 3))
           (temp_input_path (lab_env None False None (Inr 3)) 1) 48 20 5 False (- 5))
        (final_wav_file (lab_env None False None (Inr 3))
           (temp_input_path (lab_env None False None (Inr 3)) 1) 48 20 5 False (- 5))]"
proof -
  have h: "bitrate (heuristic_controller (- 5)) = 48"
    by (simp add: heuristic_controller_def)
  have t: "trace lab_world = []"
    by (simp add: lab_world_def)
  show ?thesis
    unfolding run_audio_simulation_trace [OF lab_prepared(1,2,3)]
    by (simp add: select_controller_values process_audio_file_trace lab_encoder_ok
        static_fields heuristic_fields h t lab_prepared(4))
qed

text \<open>
  C5, as amended: \<^verbatim>\<open>run_audio_simulation\<close> does not clamp. Once the source audio is read,
  resampled and written to the temporary input, the selected controller is applied to
  \<^verbatim>\<open>packet_loss_perc\<close> as given, the codec commands the call runs are the encoder with the
  chosen configuration and, if the encoder did not raise, the decoder with exactly
  \<^verbatim>\<open>packet_loss_perc\<close> as its packet loss, and the metrics carry the chosen configuration.
\<close>

theorem run_audio_simulation_loss_unchanged:
  assumes "sf_read w audio_path = Inr (data, sr)"
    and "resample_to_16khz e (first_channel data) sr = Inr (data_res, sr_res)"
    and "sf_write_error e (temp_input_path e (clock e (Suc (ticks w)))) = None"
    and "select_controller ct loss model = Inr (Some cfg)"
  shows
    "let temp = temp_input_path e (clock e (Suc (ticks w)));
         w2 = w\<lparr>ticks := Suc (Suc (ticks w)),
                files := (files w)(temp \<mapsto> AudioFile (Mono data_res) sr_res)\<rparr>;
         opus = intermediate_opus_file e temp (bitrate cfg) (frame_size cfg) (complexity cfg)
                  (use_fec cfg) loss;
         wav = final_wav_file e temp (bitrate cfg) (frame_size cfg) (complexity cfg)
                 (use_fec cfg) loss;
         enc = Opusenc (bitrate cfg) (frame_size cfg) (complexity cfg)
                 (if use_fec cfg then [''--expect-loss'', ''5''] else []) temp opus;
         r = run_audio_simulation e audio_path loss ct model w
     in (ct = ''static'' \<longrightarrow> cfg = static_controller loss) \<and>
        (ct = ''heuristic'' \<longrightarrow> cfg = heuristic_controller loss) \<and>
        (ct = ''ml_adaptive'' \<longrightarrow> ml_controller loss model = Some cfg) \<and>
        (ct = ''hybrid'' \<longrightarrow> hybrid_controller loss model = Some cfg) \<and>
        trace (snd r) =
          trace w @ enc #
            (if fst (subprocess_run e enc (files w2)) = Inr ()
             then [Opusdec 16000 loss opus wav] else []) \<and>
        (\<forall>m. fst r = Inr (Some m) \<longrightarrow> config m = cfg)"
proof -
  let ?temp = "temp_input_path e (clock e (Suc (ticks w)))"
  let ?w2 = "w\<lparr>ticks := Suc (Suc (ticks w)),
               files := (files w)(?temp \<mapsto> AudioFile (Mono data_res) sr_res)\<rparr>"
  let ?r = "run_audio_simulation e audio_path loss ct model w"
  note prep = run_audio_simulation_prepared [OF assms(1,2,3), of loss ct model]
  note tr = run_audio_simulation_trace [OF assms(1,2,3), of loss ct model]
  have c: "(ct = ''static'' \<longrightarrow> cfg = static_controller loss) \<and>
        (ct = ''heuristic'' \<longrightarrow> cfg = heuristic_controller loss) \<and>
        (ct = ''ml_adaptive'' \<longrightarrow> ml_controller loss model = Some cfg) \<and>
        (ct = ''hybrid'' \<longrightarrow> hybrid_controller loss model = Some cfg)"
    using assms(4) by (auto simp add: select_controller_def)
  have t: "trace (snd ?r) =
      trace (snd (process_audio_file e ?temp (bitrate cfg) (frame_size cfg) (complexity cfg)
                    (use_fec cfg) loss ?w2))"
    unfolding tr using assms(4) by simp
  have m: "config m = cfg" if f: "fst ?r = Inr (Some m)" for m
  proof -
    obtain r3 w3 where p: "process_audio_file e ?temp (bitrate cfg) (frame_size cfg)
        (complexity cfg) (use_fec cfg) loss ?w2 = (r3, w3)"
      by (metis prod.collapse)
    show ?thesis
      using f assms(4) p unfolding prep
      by (auto simp add: Let_def split: sum.splits option.splits)
  qed
  show ?thesis
    unfolding Let_def t process_audio_file_trace using c m by simp
qed

theorem run_audio_simulation_loss_unchanged_witness:
  "trace (snd (run_audio_simulation (lab_env None False None (Inr 3)) speech 50 ''heuristic'' None
                 lab_world)) =
     [Opusenc 12 20 5 [] (temp_input_path (lab_env None False None (Inr 3)) 1)
        (intermediate_opus_file (lab_env None False None (Inr 3))
           (temp_input_path (lab_env None False None (Inr 3)) 1) 12 20 5 False 50),
      Opusdec 16000 50
        (intermediate_opus_file (lab_env None False None (Inr 3))
           (temp_input_path (lab_env None False None (Inr 3)) 1) 12 20 5 False 50)
        (final_wav_file (lab_env None False None (Inr 3))
           (temp_input_path (lab_env None False None (Inr 3)) 1) 12 20 5 False 50)]"
proof -
  let ?e = "lab_env None False None (Inr 3)"
  have s: "select_controller ''heuristic'' 50 None = Inr (Some (heuristic_controller 50))"
    by (simp add: select_controller_values)
  have h: "bitrate (heuristic_controller 50) = 12"
    by (simp add: heuristic_controller_def)
  have t: "trace lab_world = []"
    by (simp add: lab_world_def)
  note u = run_audio_simulation_loss_unchanged [OF lab_prepared(1)
      lab_prepared(2,3) [of None False None "Inr 3"] s, unfolded Let_def]
  show ?thesis
    unfolding u [THEN conjunct2, THEN conjunct2, THEN conjunct2, THEN conjunct2, THEN conjunct1]
    by (simp add: lab_encoder_ok heuristic_fields h t lab_prepared(4))
qed

end
